theory Spec2Isabelle
  imports Complex_Main "HOL-Library.Log_Nat" "HOL-Library.Sublist" "HOL-Library.Word"
    "HOL-Library.Code_Target_Numeral"
begin

section \<open>Strings\<close>

text \<open>
  A JavaScript string is a sequence of UTF-16 code units. The messages of the server are
  Korean, so a code unit is modelled as a natural number and a string as a list of them;
  \<open>asc\<close> embeds an ASCII literal.
\<close>

type_synonym jsstring = "nat list"

definition asc :: "string \<Rightarrow> jsstring" where
  "asc s = map of_char s"

text \<open>
  The code units that \<open>String.prototype.trim\<close> and \<open>parseFloat\<close> skip: ECMAScript's
  WhiteSpace and LineTerminator productions.
\<close>

definition isWhiteSpace :: "nat \<Rightarrow> bool" where
  "isWhiteSpace c \<longleftrightarrow>
     c = 9 \<or> c = 10 \<or> c = 11 \<or> c = 12 \<or> c = 13 \<or> c = 32 \<or> c = 160 \<or> c = 5760 \<or>
     (8192 \<le> c \<and> c \<le> 8202) \<or> c = 8232 \<or> c = 8233 \<or> c = 8239 \<or> c = 8287 \<or>
     c = 12288 \<or> c = 65279"

definition trim :: "jsstring \<Rightarrow> jsstring" where
  "trim s = rev (dropWhile isWhiteSpace (rev (dropWhile isWhiteSpace s)))"

text \<open>\<open>str.split(",")\<close>: the pieces between the commas; never an empty array.\<close>

fun split_comma :: "jsstring \<Rightarrow> jsstring list" where
  "split_comma [] = [[]]"
| "split_comma (c # cs) =
     (if c = 44 then [] # split_comma cs
      else (case split_comma cs of
              p # ps \<Rightarrow> (c # p) # ps
            | [] \<Rightarrow> [[c]]))"

definition isDigit :: "nat \<Rightarrow> bool" where
  "isDigit c \<longleftrightarrow> 48 \<le> c \<and> c \<le> 57"

definition digits_value :: "jsstring \<Rightarrow> nat" where
  "digits_value ds = foldl (\<lambda>acc c. 10 * acc + (c - 48)) 0 ds"

text \<open>The decimal numeral of a natural number.\<close>

fun dec :: "nat \<Rightarrow> jsstring" where
  "dec n = (if n < 10 then [48 + n] else dec (n div 10) @ [48 + n mod 10])"

declare dec.simps [simp del]

section \<open>Numbers\<close>

text \<open>
  A JavaScript number is an IEEE 754 binary64 value. A finite one is modelled by the
  rational it denotes; the two zeros are not told apart (the code below never divides by
  one and prints both as \<open>0\<close>).
\<close>

datatype number = NaN | PosInfinity | NegInfinity | Finite rat

definition pow2 :: "int \<Rightarrow> rat" where
  "pow2 e = (if 0 \<le> e then 2 ^ nat e else 1 / 2 ^ nat (- e))"

definition pow10 :: "int \<Rightarrow> rat" where
  "pow10 e = (if 0 \<le> e then 10 ^ nat e else 1 / 10 ^ nat (- e))"

text \<open>\<open>ilog2 a\<close> is the integer part of the binary logarithm of a positive rational.\<close>

definition ilog2 :: "rat \<Rightarrow> int" where
  "ilog2 a =
     (let (p, d) = quotient_of a;
          e = int (floorlog 2 (nat p)) - int (floorlog 2 (nat d))
      in if pow2 e \<le> a then e else e - 1)"

definition round_half_even :: "rat \<Rightarrow> int" where
  "round_half_even x =
     (let n = \<lfloor>x\<rfloor>; f = x - of_int n
      in if f < 1 / 2 then n
         else if 1 / 2 < f then n + 1
         else if even n then n else n + 1)"

text \<open>
  Rounding of a real value to binary64, to nearest with ties to even. With \<open>e\<close> the
  binary exponent of the value (at least -1022, the exponent of the subnormal numbers), the
  value is rounded to a multiple \<open>n\<close> of \<open>2 ^ (e - 52)\<close>, so to 53 significant bits. The
  result overflows to an infinity when it reaches \<open>2 ^ 1024\<close>: when \<open>e\<close> is 1024 or more, or
  \<open>e\<close> is 1023 and \<open>n\<close> was rounded up to \<open>2 ^ 53\<close>.
\<close>

definition binary64 :: "rat \<Rightarrow> number" where
  "binary64 q =
     (if q = 0 then Finite 0
      else
        let a = \<bar>q\<bar>;
            e = max (ilog2 a) (- 1022)
        in if 1024 \<le> e then (if q < 0 then NegInfinity else PosInfinity)
           else
             let u = pow2 (e - 52);
                 n = round_half_even (a / u)
             in if e = 1023 \<and> n = 2 ^ 53 then (if q < 0 then NegInfinity else PosInfinity)
                else Finite (if q < 0 then - (of_int n * u) else of_int n * u))"

text \<open>The comparison operators \<open><=\<close> and \<open>>=\<close> on numbers: false when an operand is NaN.\<close>

fun num_le :: "number \<Rightarrow> number \<Rightarrow> bool" where
  "num_le NaN _ = False"
| "num_le _ NaN = False"
| "num_le NegInfinity _ = True"
| "num_le _ PosInfinity = True"
| "num_le PosInfinity _ = False"
| "num_le _ NegInfinity = False"
| "num_le (Finite a) (Finite b) = (a \<le> b)"

definition num_ge :: "number \<Rightarrow> number \<Rightarrow> bool" where
  "num_ge a b = num_le b a"

text \<open>
  \<open>ToNumber\<close> of a value that is a number or \<open>undefined\<close> (\<open>None\<close>), and the global
  \<open>isNaN\<close>, which applies it first.
\<close>

definition ToNumber :: "number option \<Rightarrow> number" where
  "ToNumber v = (case v of None \<Rightarrow> NaN | Some n \<Rightarrow> n)"

definition isNaN :: "number option \<Rightarrow> bool" where
  "isNaN v \<longleftrightarrow> ToNumber v = NaN"

subsection \<open>Arithmetic and rounding\<close>

text \<open>
  \<open>x / d\<close> for a finite divisor \<open>d > 0\<close> (the code divides by the literals 1000 and 60000
  only): the quotient rounded to binary64.
\<close>

definition divide_by :: "number \<Rightarrow> rat \<Rightarrow> number" where
  "divide_by x d = (case x of Finite q \<Rightarrow> binary64 (q / d) | _ \<Rightarrow> x)"

text \<open>\<open>Math.round\<close>: the nearest integer, a tie going up.\<close>

definition Math_round :: "number \<Rightarrow> number" where
  "Math_round x = (case x of Finite q \<Rightarrow> Finite (of_int \<lfloor>q + 1 / 2\<rfloor>) | _ \<Rightarrow> x)"

subsection \<open>Numbers as text\<close>

text \<open>\<open>ilog10 a\<close> is the integer part of the decimal logarithm of a positive rational.\<close>

definition ilog10 :: "rat \<Rightarrow> int" where
  "ilog10 a =
     (let (p, d) = quotient_of a;
          e = int (length (dec (nat p))) - int (length (dec (nat d)))
      in if pow10 e \<le> a then e else e - 1)"

text \<open>
  The digits of \<open>Number::toString\<close>: the least number \<open>k\<close> of digits for which some integer
  \<open>s\<close> of \<open>k\<close> digits has \<open>s * 10 ^ (n - k)\<close> round to \<open>x\<close>, and of the two candidates next
  to \<open>x\<close> the closer one. Seventeen digits always identify a binary64 value; the last
  equation is there for totality.
\<close>

fun shortest_digits :: "rat \<Rightarrow> int \<Rightarrow> nat \<Rightarrow> nat \<Rightarrow> int \<times> nat" where
  "shortest_digits x n k 0 = (\<lfloor>x / pow10 (n - int k)\<rfloor>, k)"
| "shortest_digits x n k (Suc fuel) =
     (let sc = x / pow10 (n - int k);
          lo = \<lfloor>sc\<rfloor>;
          hi = lo + 1;
          ok_lo = (binary64 (of_int lo * pow10 (n - int k)) = Finite x);
          ok_hi = (binary64 (of_int hi * pow10 (n - int k)) = Finite x);
          lo_closer = (sc - of_int lo < of_int hi - sc \<or> (sc - of_int lo = of_int hi - sc \<and> even lo))
      in if ok_lo \<and> (ok_hi \<longrightarrow> lo_closer) then (lo, k)
         else if ok_hi then (hi, k)
         else shortest_digits x n (Suc k) fuel)"

text \<open>
  \<open>Number::toString\<close> (radix 10) of ECMAScript. An integer of magnitude up to \<open>2 ^ 53\<close> is
  its decimal numeral. Any other finite value is printed from its shortest digits \<open>s\<close> and
  the position \<open>n\<close> of the decimal point: as an integer, as a decimal fraction, or in
  exponent notation when \<open>n\<close> is above 21 or below -5.
\<close>

definition Number_toString :: "number \<Rightarrow> jsstring" where
  "Number_toString x =
     (case x of
        NaN \<Rightarrow> asc ''NaN''
      | PosInfinity \<Rightarrow> asc ''Infinity''
      | NegInfinity \<Rightarrow> asc ''-Infinity''
      | Finite q \<Rightarrow>
          let a = \<bar>q\<bar>; sign = (if q < 0 then asc ''-'' else []) in
          if a = of_int \<lfloor>a\<rfloor> \<and> \<lfloor>a\<rfloor> \<le> 2 ^ 53 then sign @ dec (nat \<lfloor>a\<rfloor>)
          else
            let n0 = ilog10 a + 1;
                (s0, k) = shortest_digits a n0 1 17;
                (s, n) = (if s0 = 10 ^ k then (s0 div 10, n0 + 1) else (s0, n0));
                ds = dec (nat s)
            in sign @
               (if int k \<le> n \<and> n \<le> 21 then ds @ replicate (nat (n - int k)) 48
                else if 0 < n \<and> n \<le> 21 then take (nat n) ds @ asc ''.'' @ drop (nat n) ds
                else if - 6 < n \<and> n \<le> 0 then asc ''0.'' @ replicate (nat (- n)) 48 @ ds
                else
                  (if k = 1 then ds else take 1 ds @ asc ''.'' @ drop 1 ds) @ asc ''e'' @
                  (if 0 \<le> n - 1 then asc ''+'' else asc ''-'') @ dec (nat \<bar>n - 1\<bar>)))"

text \<open>
  \<open>x.toFixed(1)\<close>: for a magnitude below \<open>10 ^ 21\<close>, the integer \<open>n\<close> nearest to ten times
  the magnitude (the larger of two) printed with its last digit after the point.
\<close>

definition toFixed1 :: "number \<Rightarrow> jsstring" where
  "toFixed1 x =
     (case x of
        Finite q \<Rightarrow>
          let a = \<bar>q\<bar> in
          if 10 ^ 21 \<le> a then Number_toString x
          else
            let n = nat \<lfloor>a * 10 + 1 / 2\<rfloor>
            in (if q < 0 then asc ''-'' else []) @ dec (n div 10) @ asc ''.'' @ dec (n mod 10)
      | _ \<Rightarrow> Number_toString x)"

text \<open>A digit string with a comma before every group of three digits, counted from the right.\<close>

fun group3_rev :: "jsstring \<Rightarrow> jsstring" where
  "group3_rev (a # b # c # d # ds) = a # b # c # 44 # group3_rev (d # ds)"
| "group3_rev ds = ds"

definition group3 :: "jsstring \<Rightarrow> jsstring" where
  "group3 ds = rev (group3_rev (rev ds))"

text \<open>The digits of a fraction given in thousandths, without trailing zeros.\<close>

definition fraction_digits :: "nat \<Rightarrow> jsstring" where
  "fraction_digits m =
     (if m mod 10 \<noteq> 0 then [48 + m div 100, 48 + m div 10 mod 10, 48 + m mod 10]
      else if m mod 100 \<noteq> 0 then [48 + m div 100, 48 + m div 10 mod 10]
      else [48 + m div 100])"

text \<open>
  Modelled from the spec: \<open>Number.prototype.toLocaleString\<close> is a function of the host
  runtime and depends on its locale; the specification has the fares "formatted with
  thousands separators". The definition is the grouping of the Korean and English
  locales: the integer part in groups of three digits separated by commas, and at most
  three fraction digits.
\<close>

definition toLocaleString :: "number \<Rightarrow> jsstring" where
  "toLocaleString x =
     (case x of
        NaN \<Rightarrow> asc ''NaN''
      | PosInfinity \<Rightarrow> [8734]
      | NegInfinity \<Rightarrow> [45, 8734]
      | Finite q \<Rightarrow>
          let m = nat \<lfloor>\<bar>q\<bar> * 1000 + 1 / 2\<rfloor>
          in (if q < 0 then asc ''-'' else []) @ group3 (dec (m div 1000)) @
             (if m mod 1000 = 0 then [] else asc ''.'' @ fraction_digits (m mod 1000)))"

subsection \<open>JSON values\<close>

text \<open>
  A value of a provider response that the handlers only print or test for truth.
  \<open>undefined\<close> (a missing member) is \<open>None\<close> of \<open>json option\<close>.
\<close>

datatype json =
    JNull
  | JBool bool
  | JNum number
  | JStr jsstring
  | JArr "json list"
  | JObj "(jsstring \<times> json) list"

fun join_comma :: "jsstring list \<Rightarrow> jsstring" where
  "join_comma [] = []"
| "join_comma [s] = s"
| "join_comma (s # t # ss) = s @ 44 # join_comma (t # ss)"

text \<open>
  \<open>String(v)\<close>, which a template literal applies to each value it embeds. An array is the
  join of its elements, \<open>null\<close> being the empty string there.
\<close>

fun ToString :: "json \<Rightarrow> jsstring" where
  "ToString JNull = asc ''null''"
| "ToString (JBool b) = (if b then asc ''true'' else asc ''false'')"
| "ToString (JNum n) = Number_toString n"
| "ToString (JStr s) = s"
| "ToString (JArr xs) = join_comma (map (\<lambda>x. if x = JNull then [] else ToString x) xs)"
| "ToString (JObj kvs) = asc ''[object Object]''"

definition template :: "json option \<Rightarrow> jsstring" where
  "template v = (case v of None \<Rightarrow> asc ''undefined'' | Some j \<Rightarrow> ToString j)"

text \<open>Truthiness, as \<open>?:\<close> and \<open>||\<close> test it.\<close>

definition number_truthy :: "number \<Rightarrow> bool" where
  "number_truthy n \<longleftrightarrow> n \<noteq> NaN \<and> n \<noteq> Finite 0"

fun truthy :: "json option \<Rightarrow> bool" where
  "truthy None = False"
| "truthy (Some JNull) = False"
| "truthy (Some (JBool b)) = b"
| "truthy (Some (JNum n)) = number_truthy n"
| "truthy (Some (JStr s)) = (s \<noteq> [])"
| "truthy (Some (JArr xs)) = True"
| "truthy (Some (JObj kvs)) = True"

subsection \<open>parseFloat\<close>

text \<open>
  The exponent part of a decimal literal, if the text starts with one: \<open>e\<close> or \<open>E\<close>, an
  optional sign, at least one digit. Otherwise the literal has none and the exponent is 0.
\<close>

definition exponent_part :: "jsstring \<Rightarrow> int" where
  "exponent_part r =
     (case r of
        [] \<Rightarrow> 0
      | c # r' \<Rightarrow>
          if c = 101 \<or> c = 69 then
            (let (eneg, r'') =
                   (case r' of
                      [] \<Rightarrow> (False, r')
                    | d # t \<Rightarrow> if d = 45 then (True, t) else if d = 43 then (False, t) else (False, r'));
                 ed = takeWhile isDigit r''
             in if ed = [] then 0
                else if eneg then - int (digits_value ed) else int (digits_value ed))
          else 0)"

text \<open>
  \<open>parseFloat\<close>: skip leading white space, read the longest prefix that is a
  StrDecimalLiteral (a sign, then \<open>Infinity\<close> or decimal digits with an optional fraction
  and exponent), ignore whatever follows it, and round the value read to binary64. NaN
  when there is no such prefix.
\<close>

definition parseFloat :: "jsstring \<Rightarrow> number" where
  "parseFloat input =
     (let s = dropWhile isWhiteSpace input;
          (neg, s1) =
            (case s of
               [] \<Rightarrow> (False, s)
             | c # r \<Rightarrow> if c = 45 then (True, r) else if c = 43 then (False, r) else (False, s))
      in if take 8 s1 = asc ''Infinity'' then (if neg then NegInfinity else PosInfinity)
         else
           let ip = takeWhile isDigit s1;
               r1 = dropWhile isDigit s1;
               (fp, r2) =
                 (case r1 of
                    [] \<Rightarrow> ([], r1)
                  | c # r \<Rightarrow>
                      if c = 46 then (takeWhile isDigit r, dropWhile isDigit r) else ([], r1))
           in if ip = [] \<and> fp = [] then NaN
              else
                let m = of_nat (digits_value (ip @ fp)) * pow10 (exponent_part r2 - int (length fp))
                in binary64 (if neg then - m else m))"

section \<open>The Coordinate Classifier\<close>

text \<open>
  Array destructuring \<open>const [lng, lat] = parts\<close>: the element at the index, or
  \<open>undefined\<close> where the array is too short. Further elements are ignored.
\<close>

definition element :: "'a list \<Rightarrow> nat \<Rightarrow> 'a option" where
  "element xs i = (if i < length xs then Some (xs ! i) else None)"

text \<open>
  \<open>isCoordinate\<close> of the revision with the range check:
  \<^verbatim>\<open>
  const [lng, lat] = str.split(",").map((s) => parseFloat(s.trim()));
  return !isNaN(lng) && !isNaN(lat) && lng >= -180 && lng <= 180 && lat >= -90 && lat <= 90;
  \<close>
\<close>

definition isCoordinate :: "jsstring \<Rightarrow> bool" where
  "isCoordinate str =
     (let parts = map (\<lambda>s. parseFloat (trim s)) (split_comma str);
          lng = element parts 0;
          lat = element parts 1
      in \<not> isNaN lng \<and> \<not> isNaN lat \<and>
         num_ge (ToNumber lng) (Finite (- 180)) \<and> num_le (ToNumber lng) (Finite 180) \<and>
         num_ge (ToNumber lat) (Finite (- 90)) \<and> num_le (ToNumber lat) (Finite 90))"

text \<open>
  \<open>isCoordinate\<close> of the earlier revisions:
  \<^verbatim>\<open>
  const parts = str.split(",");
  return parts.length === 2 && !isNaN(parseFloat(parts[0])) && !isNaN(parseFloat(parts[1]));
  \<close>
\<close>

definition isCoordinate_unranged :: "jsstring \<Rightarrow> bool" where
  "isCoordinate_unranged str =
     (let parts = split_comma str
      in length parts = 2 \<and>
         \<not> isNaN (Some (parseFloat (parts ! 0))) \<and>
         \<not> isNaN (Some (parseFloat (parts ! 1))))"

section \<open>Base64\<close>

type_synonym byte = "8 word"

text \<open>The character of a six-bit value in the alphabet \<open>A-Z a-z 0-9 + /\<close>.\<close>

definition b64char :: "nat \<Rightarrow> nat" where
  "b64char i =
     (if i < 26 then 65 + i
      else if i < 52 then 97 + (i - 26)
      else if i < 62 then 48 + (i - 52)
      else if i = 62 then 43 else 47)"

text \<open>
  Modelled from the spec: \<open>Buffer.prototype.toString("base64")\<close> is a function of the
  Node.js runtime, not of the repository; the specification has the handler "encode the
  returned bytes as base64". The definition is the base64 encoding of RFC 4648: three bytes
  give four characters, and a last group of one or two bytes is padded with \<open>=\<close>.
\<close>

fun base64 :: "byte list \<Rightarrow> jsstring" where
  "base64 (a # b # c # bs) =
     b64char (unat a div 4) # b64char (unat a mod 4 * 16 + unat b div 16) #
     b64char (unat b mod 16 * 4 + unat c div 64) # b64char (unat c mod 64) # base64 bs"
| "base64 [a, b] =
     [b64char (unat a div 4), b64char (unat a mod 4 * 16 + unat b div 16),
      b64char (unat b mod 16 * 4), 61]"
| "base64 [a] = [b64char (unat a div 4), b64char (unat a mod 4 * 16), 61, 61]"
| "base64 [] = []"

definition b64index :: "nat \<Rightarrow> nat option" where
  "b64index c =
     (if 65 \<le> c \<and> c \<le> 90 then Some (c - 65)
      else if 97 \<le> c \<and> c \<le> 122 then Some (c - 71)
      else if 48 \<le> c \<and> c \<le> 57 then Some (c + 4)
      else if c = 43 then Some 62
      else if c = 47 then Some 63
      else None)"

text \<open>
  Modelled from the spec: the decoder of the round trip the specification asks for, which
  the repository does not contain. It reads groups of four characters of the same
  alphabet; padding is accepted in the last group only, and \<open>None\<close> is a malformed text.
\<close>

fun base64_decode :: "jsstring \<Rightarrow> byte list option" where
  "base64_decode (c1 # c2 # c3 # c4 # cs) =
     (case (b64index c1, b64index c2) of
        (Some i1, Some i2) \<Rightarrow>
          if c3 = 61 \<and> c4 = 61 \<and> cs = [] then Some [of_nat (i1 * 4 + i2 div 16)]
          else
            (case b64index c3 of
               None \<Rightarrow> None
             | Some i3 \<Rightarrow>
                 if c4 = 61 \<and> cs = [] then
                   Some [of_nat (i1 * 4 + i2 div 16), of_nat (i2 mod 16 * 16 + i3 div 4)]
                 else
                   (case b64index c4 of
                      None \<Rightarrow> None
                    | Some i4 \<Rightarrow>
                        (case base64_decode cs of
                           None \<Rightarrow> None
                         | Some bs \<Rightarrow>
                             Some (of_nat (i1 * 4 + i2 div 16) #
                                   of_nat (i2 mod 16 * 16 + i3 div 4) #
                                   of_nat (i3 mod 4 * 64 + i4) # bs))))
      | _ \<Rightarrow> None)"
| "base64_decode [] = Some []"
| "base64_decode _ = None"

section \<open>Provider responses\<close>

text \<open>
  The handlers read the provider's JSON through untyped member access. The records fix
  the shape they read: a member that the code guards with \<open>?.\<close>, \<open>||\<close> or a truth test, or
  that it only prints, is optional; a member the code takes arithmetic of is a number or
  missing. Members the code does not read are left out.
\<close>

record address =
  addr_x :: "json option"
  addr_y :: "json option"
  addr_roadAddress :: "json option"
  addr_jibunAddress :: "json option"

text \<open>\<open>route.summary\<close>, with \<open>start.location\<close> and \<open>goal.location\<close> of its two end points.\<close>

record summary =
  distance :: "number option"
  duration :: "number option"
  tollFare :: "number option"
  fuelPrice :: "number option"
  start_location :: "json option"
  goal_location :: "json option"

record route_item =
  route_summary :: summary

record routes =
  trafast :: "route_item list option"
  traoptimal :: "route_item list option"
  tracomfort :: "route_item list option"
  trainormal :: "route_item list option"

record region =
  region_text :: "json option"

text \<open>The object a response body parses to, with the members of the three JSON endpoints.\<close>

record api_json =
  addresses :: "address list option"
  route :: "routes option"
  results :: "region list option"

section \<open>The Provider Request Gateway\<close>

record config =
  NAVER_CLIENT_ID :: jsstring
  NAVER_CLIENT_SECRET :: jsstring
  debug :: bool

text \<open>
  A request as \<open>fetch\<close> receives it: the URL (base, path and the query parameters appended
  to it, in order), the method and the headers.
\<close>

record request =
  req_method :: jsstring
  req_base :: jsstring
  req_path :: jsstring
  req_query :: "(jsstring \<times> jsstring) list"
  req_headers :: "(jsstring \<times> jsstring) list"

text \<open>
  A response: its status line and its body, as \<open>response.json()\<close> reads it (the parsed
  object, or the message of the error it throws) and as \<open>response.arrayBuffer()\<close> does.
\<close>

record response =
  status :: nat
  statusText :: jsstring
  body_json :: "jsstring + api_json"
  body_bytes :: "byte list"

text \<open>\<open>response.ok\<close>: the status is in the range 200 to 299.\<close>

definition ok :: "response \<Rightarrow> bool" where
  "ok r \<longleftrightarrow> 200 \<le> status r \<and> status r \<le> 299"

text \<open>\<open>fetch\<close> either rejects (a network failure, with its message) or resolves to a response.\<close>

datatype fetch_result = Rejected jsstring | Resolved response

text \<open>
  The provider is outside the program: \<open>net i req\<close> is the outcome of \<open>fetch\<close> for the
  request \<open>req\<close> when \<open>i\<close> requests were issued before it. The effect of a handler is the
  list of the requests it issued, oldest first.
\<close>

type_synonym provider = "nat \<Rightarrow> request \<Rightarrow> fetch_result"

datatype error = Error (message: jsstring)

type_synonym 'a io = "request list \<Rightarrow> (error + 'a) \<times> request list"

definition succeed :: "'a \<Rightarrow> 'a io" where
  "succeed a issued = (Inr a, issued)"

definition throw :: "error \<Rightarrow> 'a io" where
  "throw e issued = (Inl e, issued)"

text \<open>\<open>const a = await m; ...\<close>: an error of \<open>m\<close> ends the sequence.\<close>

definition and_then :: "'a io \<Rightarrow> ('a \<Rightarrow> 'b io) \<Rightarrow> 'b io" where
  "and_then m f issued =
     (case m issued of
        (Inl e, issued') \<Rightarrow> (Inl e, issued')
      | (Inr a, issued') \<Rightarrow> f a issued')"

datatype payload = Json api_json | Binary "byte list"

definition msg_api_error :: jsstring where
  "msg_api_error = [45348, 51060, 48260, 32, 65, 80, 73, 32, 50724, 47448, 58, 32]"

text \<open>
  \<^verbatim>\<open>
  Object.entries(params).forEach(([key, value]) => {
    if (value !== undefined) url.searchParams.append(key, String(value));
  });
  \<close>
\<close>

definition searchParams :: "(jsstring \<times> json option) list \<Rightarrow> (jsstring \<times> jsstring) list" where
  "searchParams params =
     concat (map (\<lambda>(key, v). case v of None \<Rightarrow> [] | Some j \<Rightarrow> [(key, ToString j)]) params)"

definition api_request :: "config \<Rightarrow> jsstring \<Rightarrow> (jsstring \<times> json option) list \<Rightarrow> request" where
  "api_request config endpoint params =
     \<lparr>req_method = asc ''GET'',
      req_base = asc ''https://maps.apigw.ntruss.com'',
      req_path = endpoint,
      req_query = searchParams params,
      req_headers =
        [(asc ''X-NCP-APIGW-API-KEY-ID'', NAVER_CLIENT_ID config),
         (asc ''X-NCP-APIGW-API-KEY'', NAVER_CLIENT_SECRET config)]\<rparr>"

text \<open>
  \<open>makeNaverAPIRequest\<close>: one request; a rejected \<open>fetch\<close> and a body that is not JSON
  throw the runtime's error, a status outside the success range throws
  \<^verbatim>\<open>new Error(`... ${response.status} ${response.statusText}`)\<close>, and otherwise the body is
  returned: the bytes when \<open>expectBinary\<close>, the parsed object when not.
\<close>

definition makeNaverAPIRequest ::
  "config \<Rightarrow> provider \<Rightarrow> jsstring \<Rightarrow> (jsstring \<times> json option) list \<Rightarrow> bool \<Rightarrow> payload io" where
  "makeNaverAPIRequest config net endpoint params expectBinary issued =
     (let req = api_request config endpoint params;
          issued' = issued @ [req]
      in case net (length issued) req of
           Rejected m \<Rightarrow> (Inl (Error m), issued')
         | Resolved r \<Rightarrow>
             if \<not> ok r then
               (Inl (Error (msg_api_error @ dec (status r) @ asc '' '' @ statusText r)), issued')
             else if expectBinary then (Inr (Binary (body_bytes r)), issued')
             else
               (case body_json r of
                  Inl m \<Rightarrow> (Inl (Error m), issued')
                | Inr j \<Rightarrow> (Inr (Json j), issued')))"

subsection \<open>The Gateway of the entry file\<close>

text \<open>
  \<open>src/index.ts\<close>, the entry of the server, has an earlier Gateway. It differs from the one
  above in three places: the names of the two headers are in lower case, there is no
  \<open>expectBinary\<close>, and the message of the error for a status outside the success range is
  \<^verbatim>\<open>`... ${response.status} ${response.statusText} ${window.location.hostname}`\<close>.

  \<open>window\<close> is a global of the host. Node.js, which runs the server, has none, and
  evaluating the identifier throws \<open>ReferenceError: window is not defined\<close> before the
  template is complete and before \<open>new Error\<close> is called; in a browser the member is the
  host name of the page.
\<close>

datatype host = NodeJS | Browser jsstring

definition window_location_hostname :: "host \<Rightarrow> error + jsstring" where
  "window_location_hostname host =
     (case host of
        NodeJS \<Rightarrow> Inl (Error (asc ''window is not defined''))
      | Browser hostname \<Rightarrow> Inr hostname)"

definition api_request_index :: "config \<Rightarrow> jsstring \<Rightarrow> (jsstring \<times> json option) list \<Rightarrow> request" where
  "api_request_index config endpoint params =
     \<lparr>req_method = asc ''GET'',
      req_base = asc ''https://maps.apigw.ntruss.com'',
      req_path = endpoint,
      req_query = searchParams params,
      req_headers =
        [(asc ''x-ncp-apigw-api-key-id'', NAVER_CLIENT_ID config),
         (asc ''x-ncp-apigw-api-key'', NAVER_CLIENT_SECRET config)]\<rparr>"

definition makeNaverAPIRequest_index ::
  "host \<Rightarrow> config \<Rightarrow> provider \<Rightarrow> jsstring \<Rightarrow> (jsstring \<times> json option) list \<Rightarrow> payload io" where
  "makeNaverAPIRequest_index host config net endpoint params issued =
     (let req = api_request_index config endpoint params;
          issued' = issued @ [req]
      in case net (length issued) req of
           Rejected m \<Rightarrow> (Inl (Error m), issued')
         | Resolved r \<Rightarrow>
             if \<not> ok r then
               (case window_location_hostname host of
                  Inl e \<Rightarrow> (Inl e, issued')
                | Inr hostname \<Rightarrow>
                    (Inl (Error (msg_api_error @ dec (status r) @ asc '' '' @ statusText r @
                                 asc '' '' @ hostname)), issued'))
             else
               (case body_json r of
                  Inl m \<Rightarrow> (Inl (Error m), issued')
                | Inr j \<Rightarrow> (Inr (Json j), issued')))"

section \<open>Tool handlers\<close>

text \<open>An item of the \<open>content\<close> array a handler returns.\<close>

datatype content = TextItem jsstring | ImageItem jsstring

definition msg_error_prefix :: jsstring where
  "msg_error_prefix = [50724, 47448, 32, 48156, 49373, 58, 32]"

text \<open>
  \<^verbatim>\<open>try { ... } catch (err) { return { content: [{ type: "text", text: `... ${err.message}` }] }; }\<close>
  around the whole body of every handler.
\<close>

definition try_catch :: "content list io \<Rightarrow> request list \<Rightarrow> content list \<times> request list" where
  "try_catch body issued =
     (case body issued of
        (Inl err, issued') \<Rightarrow> ([TextItem (msg_error_prefix @ message err)], issued')
      | (Inr res, issued') \<Rightarrow> (res, issued'))"

text \<open>Member access on what the Gateway returned; an \<open>ArrayBuffer\<close> has none of the members.\<close>

definition addresses_of :: "payload \<Rightarrow> address list option" where
  "addresses_of data = (case data of Json j \<Rightarrow> addresses j | Binary bs \<Rightarrow> None)"

definition route_of :: "payload \<Rightarrow> routes option" where
  "route_of data = (case data of Json j \<Rightarrow> route j | Binary bs \<Rightarrow> None)"

definition results_of :: "payload \<Rightarrow> region list option" where
  "results_of data = (case data of Json j \<Rightarrow> results j | Binary bs \<Rightarrow> None)"

definition geocode_endpoint :: jsstring where
  "geocode_endpoint = asc ''/map-geocode/v2/geocode''"

definition directions_endpoint :: jsstring where
  "directions_endpoint = asc ''/map-direction/v1/driving''"

definition reverse_geocode_endpoint :: jsstring where
  "reverse_geocode_endpoint = asc ''/map-reversegeocode/v2/gc''"

definition static_map_endpoint :: jsstring where
  "static_map_endpoint = asc ''/map-static/v2/raster''"

subsection \<open>Directions\<close>

definition msg_route_not_found :: jsstring where
  "msg_route_not_found =
     [44221, 47196, 47484, 32, 52286, 51012, 32, 49688, 32, 50630, 49845, 45768, 45796, 46]"

definition won :: jsstring where
  "won = [50896]"

definition minutes :: jsstring where
  "minutes = [48516]"

text \<open>The fixed pieces of the result text, between the values embedded in it.\<close>

definition label_start :: jsstring where
  "label_start =
     [55357, 56983, 32, 44600, 52286, 44592, 32, 44208, 44284, 10, 10,
      55357, 56525, 32, 52636, 48156, 58, 32]"

definition label_goal :: jsstring where
  "label_goal = [10, 55357, 56525, 32, 46020, 52265, 58, 32]"

definition label_distance :: jsstring where
  "label_distance = [10, 10, 55357, 56527, 32, 44144, 47532, 58, 32]"

definition label_duration :: jsstring where
  "label_duration = [10, 9201, 65039, 32, 49548, 50836, 49884, 44036, 58, 32]"

definition label_tollFare :: jsstring where
  "label_tollFare = [10, 55357, 56496, 32, 53685, 54665, 47308, 58, 32]"

definition label_fuelPrice :: jsstring where
  "label_fuelPrice = [10, 9981, 32, 50696, 49345, 32, 50672, 47308, 48708, 58, 32]"

text \<open>\<open>list?.[0]\<close>: the first element, \<open>undefined\<close> for a missing or an empty list.\<close>

definition first_of :: "'a list option \<Rightarrow> 'a option" where
  "first_of l = (case l of Some (x # xs) \<Rightarrow> Some x | _ \<Rightarrow> None)"

text \<open>\<open>a || b\<close> on operands that are objects (always true) or \<open>undefined\<close>.\<close>

definition or_else :: "'a option \<Rightarrow> 'a option \<Rightarrow> 'a option" where
  "or_else a b = (case a of Some x \<Rightarrow> Some x | None \<Rightarrow> b)"

definition no_routes :: routes where
  "no_routes = \<lparr>trafast = None, traoptimal = None, tracomfort = None, trainormal = None\<rparr>"

text \<open>
  \<^verbatim>\<open>
  const route = data.route || {};
  const best = route.trafast?.[0] || route.traoptimal?.[0] ||
               route.tracomfort?.[0] || route.trainormal?.[0];
  \<close>
\<close>

definition best_route :: "payload \<Rightarrow> route_item option" where
  "best_route data =
     (let route = (case route_of data of Some r \<Rightarrow> r | None \<Rightarrow> no_routes)
      in or_else (or_else (or_else (first_of (trafast route)) (first_of (traoptimal route)))
                          (first_of (tracomfort route)))
                 (first_of (trainormal route)))"

text \<open>
  \<^verbatim>\<open>summary.tollFare ? `${summary.tollFare.toLocaleString()}...` : "0..."\<close>, and the same for
  the fuel price.
\<close>

definition fare_text :: "number option \<Rightarrow> jsstring" where
  "fare_text fare =
     (case fare of
        None \<Rightarrow> asc ''0'' @ won
      | Some n \<Rightarrow> if number_truthy n then toLocaleString n @ won else asc ''0'' @ won)"

text \<open>
  The text for the route \<open>best\<close>:
  \<^verbatim>\<open>
  const { summary } = best;
  const result = {
    distance: `${(summary.distance / 1000).toFixed(1)}km`,
    duration: `${Math.round(summary.duration / 60000)}...`,
    tollFare: ..., fuelPrice: ...,
    start: summary.start.location, goal: summary.goal.location };
  \<close>
  and the template literal that embeds the six fields between the labels.
\<close>

definition route_text :: "route_item \<Rightarrow> jsstring" where
  "route_text best =
     (let summary = route_summary best;
          result_distance = toFixed1 (divide_by (ToNumber (distance summary)) 1000) @ asc ''km'';
          result_duration =
            Number_toString (Math_round (divide_by (ToNumber (duration summary)) 60000)) @ minutes;
          result_tollFare = fare_text (tollFare summary);
          result_fuelPrice = fare_text (fuelPrice summary);
          result_start = template (start_location summary);
          result_goal = template (goal_location summary)
      in label_start @ result_start @ label_goal @ result_goal @
         label_distance @ result_distance @ label_duration @ result_duration @
         label_tollFare @ result_tollFare @ label_fuelPrice @ result_fuelPrice)"

text \<open>What the handler returns for the object \<open>data\<close> of the directions endpoint.\<close>

definition directions_result :: "payload \<Rightarrow> content list" where
  "directions_result data =
     (case best_route data of
        None \<Rightarrow> [TextItem msg_route_not_found]
      | Some best \<Rightarrow> [TextItem (route_text best)])"

text \<open>
  \<^verbatim>\<open>
  if (geo.addresses?.length) { const { x, y } = geo.addresses[0]; coords = `${x},${y}`; }
  \<close>
  on a variable that holds \<open>original\<close> before.
\<close>

definition first_coordinates :: "payload \<Rightarrow> jsstring \<Rightarrow> jsstring" where
  "first_coordinates geo original =
     (case first_of (addresses_of geo) of
        Some a \<Rightarrow> template (addr_x a) @ asc '','' @ template (addr_y a)
      | None \<Rightarrow> original)"

definition directions_params ::
  "jsstring \<Rightarrow> jsstring \<Rightarrow> jsstring \<Rightarrow> jsstring option \<Rightarrow> (jsstring \<times> json option) list" where
  "directions_params startCoords goalCoords option waypoints =
     [(asc ''start'', Some (JStr startCoords)),
      (asc ''goal'', Some (JStr goalCoords)),
      (asc ''option'', Some (JStr option))] @
     (case waypoints of
        None \<Rightarrow> []
      | Some w \<Rightarrow> if w \<noteq> [] then [(asc ''waypoints'', Some (JStr w))] else [])"

text \<open>
  The \<open>try\<close> block of the handler of \<open>naver_directions\<close>: geocode \<open>start\<close>, then \<open>goal\<close>,
  each only when it is not a coordinate; ask for the route; report the best one.
\<close>

definition directions_try ::
  "config \<Rightarrow> provider \<Rightarrow> jsstring \<Rightarrow> jsstring \<Rightarrow> jsstring \<Rightarrow> jsstring option \<Rightarrow> content list io" where
  "directions_try config net start goal option waypoints =
     and_then
       (if \<not> isCoordinate start then
          and_then
            (makeNaverAPIRequest config net geocode_endpoint
               [(asc ''query'', Some (JStr start))] False)
            (\<lambda>geo. succeed (first_coordinates geo start))
        else succeed start)
       (\<lambda>startCoords.
          and_then
            (if \<not> isCoordinate goal then
               and_then
                 (makeNaverAPIRequest config net geocode_endpoint
                    [(asc ''query'', Some (JStr goal))] False)
                 (\<lambda>geo. succeed (first_coordinates geo goal))
             else succeed goal)
            (\<lambda>goalCoords.
               and_then
                 (makeNaverAPIRequest config net directions_endpoint
                    (directions_params startCoords goalCoords option waypoints) False)
                 (\<lambda>data. succeed (directions_result data))))"

definition naver_directions ::
  "config \<Rightarrow> provider \<Rightarrow> jsstring \<Rightarrow> jsstring \<Rightarrow> jsstring \<Rightarrow> jsstring option \<Rightarrow>
   request list \<Rightarrow> content list \<times> request list" where
  "naver_directions config net start goal option waypoints =
     try_catch (directions_try config net start goal option waypoints)"

subsection \<open>Geocode\<close>

definition msg_address_not_found :: jsstring where
  "msg_address_not_found =
     [51452, 49548, 47484, 32, 52286, 51012, 32, 49688, 32, 50630, 49845, 45768, 45796, 46]"

definition label_address :: jsstring where
  "label_address = [55357, 56525, 32, 51452, 49548, 58, 32]"

definition label_coordinates :: jsstring where
  "label_coordinates = [55356, 57104, 32, 51340, 54364, 58, 32]"

definition label_lat_lng :: jsstring where
  "label_lat_lng = [32, 40, 50948, 46020, 44, 32, 44221, 46020, 41]"

definition geocode_result :: "payload \<Rightarrow> content list" where
  "geocode_result data =
     (case first_of (addresses_of data) of
        None \<Rightarrow> [TextItem msg_address_not_found]
      | Some a \<Rightarrow>
          [TextItem (label_address @
                 template (if truthy (addr_roadAddress a) then addr_roadAddress a
                           else addr_jibunAddress a) @
                 [10] @ label_coordinates @ template (addr_y a) @ asc '', '' @
                 template (addr_x a) @ label_lat_lng)])"

definition geocode_try :: "config \<Rightarrow> provider \<Rightarrow> jsstring \<Rightarrow> content list io" where
  "geocode_try config net address =
     and_then
       (makeNaverAPIRequest config net geocode_endpoint
          [(asc ''query'', Some (JStr address))] False)
       (\<lambda>data. succeed (geocode_result data))"

definition naver_geocode ::
  "config \<Rightarrow> provider \<Rightarrow> jsstring \<Rightarrow> request list \<Rightarrow> content list \<times> request list" where
  "naver_geocode config net address = try_catch (geocode_try config net address)"

text \<open>
  The handler of \<open>naver_geocode\<close> in the entry file: the same body, with the test written
  \<open>!data.addresses || data.addresses.length === 0\<close>, over the Gateway of that file.
\<close>

definition geocode_try_index :: "host \<Rightarrow> config \<Rightarrow> provider \<Rightarrow> jsstring \<Rightarrow> content list io" where
  "geocode_try_index host config net address =
     and_then
       (makeNaverAPIRequest_index host config net geocode_endpoint
          [(asc ''query'', Some (JStr address))])
       (\<lambda>data. succeed (geocode_result data))"

definition naver_geocode_index ::
  "host \<Rightarrow> config \<Rightarrow> provider \<Rightarrow> jsstring \<Rightarrow> request list \<Rightarrow> content list \<times> request list" where
  "naver_geocode_index host config net address =
     try_catch (geocode_try_index host config net address)"

subsection \<open>Reverse geocode\<close>

definition msg_coordinate_not_found :: jsstring where
  "msg_coordinate_not_found =
     [54644, 45817, 32, 51340, 54364, 51032, 32, 51452, 49548, 47484, 32, 52286, 51012, 32,
      49688, 32, 50630, 49845, 45768, 45796, 46]"

definition reverse_geocode_result :: "number \<Rightarrow> number \<Rightarrow> payload \<Rightarrow> content list" where
  "reverse_geocode_result lat lng data =
     (case first_of (results_of data) of
        None \<Rightarrow> [TextItem msg_coordinate_not_found]
      | Some r \<Rightarrow>
          [TextItem (label_coordinates @ Number_toString lat @ asc '', '' @ Number_toString lng @
                 [10] @ label_address @ template (region_text r))])"

definition reverse_geocode_try :: "config \<Rightarrow> provider \<Rightarrow> number \<Rightarrow> number \<Rightarrow> content list io" where
  "reverse_geocode_try config net lat lng =
     and_then
       (makeNaverAPIRequest config net reverse_geocode_endpoint
          [(asc ''coords'', Some (JStr (Number_toString lng @ asc '','' @ Number_toString lat))),
           (asc ''output'', Some (JStr (asc ''json'')))] False)
       (\<lambda>data. succeed (reverse_geocode_result lat lng data))"

definition naver_reverse_geocode ::
  "config \<Rightarrow> provider \<Rightarrow> number \<Rightarrow> number \<Rightarrow> request list \<Rightarrow> content list \<times> request list" where
  "naver_reverse_geocode config net lat lng = try_catch (reverse_geocode_try config net lat lng)"

subsection \<open>Static map\<close>

definition msg_no_geocoding_result :: jsstring where
  "msg_no_geocoding_result =
     [51648, 50724, 53076, 46377, 32, 44208, 44284, 44032, 32, 50630, 49845, 45768, 45796, 46]"

definition label_static_map :: jsstring where
  "label_static_map =
     [55357, 56826, 65039, 32, 51221, 51201, 32, 51648, 46020, 32] @ asc ''(center: ''"

definition static_map_params ::
  "jsstring \<Rightarrow> number \<Rightarrow> number \<Rightarrow> number \<Rightarrow> jsstring \<Rightarrow> (jsstring \<times> json option) list" where
  "static_map_params centerCoords level w h format =
     [(asc ''center'', Some (JStr centerCoords)),
      (asc ''level'', Some (JNum level)),
      (asc ''w'', Some (JNum w)),
      (asc ''h'', Some (JNum h)),
      (asc ''format'', Some (JStr format))]"

text \<open>
  \<^verbatim>\<open>
  const base64 = Buffer.from(buffer).toString("base64");
  const dataUri = `data:image/${format};base64,${base64}`;
  \<close>
\<close>

definition dataUri :: "jsstring \<Rightarrow> byte list \<Rightarrow> jsstring" where
  "dataUri format buffer = asc ''data:image/'' @ format @ asc '';base64,'' @ base64 buffer"

definition static_map_result ::
  "jsstring \<Rightarrow> number \<Rightarrow> number \<Rightarrow> number \<Rightarrow> jsstring \<Rightarrow> byte list \<Rightarrow> content list" where
  "static_map_result centerCoords level w h format buffer =
     [ImageItem (dataUri format buffer),
      TextItem (label_static_map @ centerCoords @ asc '', level: '' @ Number_toString level @
            asc '', size: '' @ Number_toString w @ asc ''x'' @ Number_toString h @ asc '')'')]"

text \<open>
  The \<open>try\<close> block of the handler of \<open>naver_static_map\<close>, in the revision that returns the
  image inline. A centre that is not a coordinate is geocoded, and
  \<^verbatim>\<open>if (!geo.addresses?.length) throw new Error("...")\<close> ends the handler when the provider
  knows no address for it. The Gateway returns bytes when \<open>expectBinary\<close> is set, so the case
  of a parsed object is there for totality only.
\<close>

definition static_map_try ::
  "config \<Rightarrow> provider \<Rightarrow> jsstring \<Rightarrow> number \<Rightarrow> number \<Rightarrow> number \<Rightarrow> jsstring \<Rightarrow> content list io" where
  "static_map_try config net center level w h format =
     and_then
       (if \<not> isCoordinate center then
          and_then
            (makeNaverAPIRequest config net geocode_endpoint
               [(asc ''query'', Some (JStr center))] False)
            (\<lambda>geo.
               case first_of (addresses_of geo) of
                 None \<Rightarrow> throw (Error msg_no_geocoding_result)
               | Some a \<Rightarrow> succeed (template (addr_x a) @ asc '','' @ template (addr_y a)))
        else succeed center)
       (\<lambda>centerCoords.
          and_then
            (makeNaverAPIRequest config net static_map_endpoint
               (static_map_params centerCoords level w h format) True)
            (\<lambda>buffer.
               case buffer of
                 Binary bs \<Rightarrow> succeed (static_map_result centerCoords level w h format bs)
               | Json j \<Rightarrow> throw (Error [])))"

definition naver_static_map ::
  "config \<Rightarrow> provider \<Rightarrow> jsstring \<Rightarrow> number \<Rightarrow> number \<Rightarrow> number \<Rightarrow> jsstring \<Rightarrow>
   request list \<Rightarrow> content list \<times> request list" where
  "naver_static_map config net center level w h format =
     try_catch (static_map_try config net center level w h format)"

subsection \<open>The tool surface\<close>

text \<open>
  The four registrations \<open>server.tool(name, description, schema, handler)\<close>: an invocation
  names a tool and carries its arguments, as the schema has validated them.
\<close>

datatype invocation =
    Directions jsstring jsstring jsstring "jsstring option"
  | Geocode jsstring
  | ReverseGeocode number number
  | StaticMap jsstring number number number jsstring

fun invoke :: "config \<Rightarrow> provider \<Rightarrow> invocation \<Rightarrow> request list \<Rightarrow> content list \<times> request list" where
  "invoke config net (Directions start goal option waypoints) =
     naver_directions config net start goal option waypoints"
| "invoke config net (Geocode address) = naver_geocode config net address"
| "invoke config net (ReverseGeocode lat lng) = naver_reverse_geocode config net lat lng"
| "invoke config net (StaticMap center level w h format) =
     naver_static_map config net center level w h format"

section \<open>The vocabulary of the specification\<close>

text \<open>
  What the provider answered to the request \<open>req\<close>, issued after \<open>i\<close> others: a success
  with the JSON value \<open>j\<close>, a success with the bytes \<open>bs\<close>, or a status outside the success
  range.
\<close>

definition answers_json :: "provider \<Rightarrow> nat \<Rightarrow> request \<Rightarrow> api_json \<Rightarrow> bool" where
  "answers_json net i req j =
     (case net i req of Resolved r \<Rightarrow> ok r \<and> body_json r = Inr j | Rejected m \<Rightarrow> False)"

definition answers_bytes :: "provider \<Rightarrow> nat \<Rightarrow> request \<Rightarrow> byte list \<Rightarrow> bool" where
  "answers_bytes net i req bs =
     (case net i req of Resolved r \<Rightarrow> ok r \<and> body_bytes r = bs | Rejected m \<Rightarrow> False)"

definition answers_status :: "provider \<Rightarrow> nat \<Rightarrow> request \<Rightarrow> nat \<Rightarrow> jsstring \<Rightarrow> bool" where
  "answers_status net i req code reason =
     (case net i req of
        Resolved r \<Rightarrow> \<not> ok r \<and> status r = code \<and> statusText r = reason
      | Rejected m \<Rightarrow> False)"

text \<open>The requests of the four endpoints.\<close>

definition geocode_request :: "config \<Rightarrow> jsstring \<Rightarrow> request" where
  "geocode_request config query =
     api_request config geocode_endpoint [(asc ''query'', Some (JStr query))]"

definition directions_request ::
  "config \<Rightarrow> jsstring \<Rightarrow> jsstring \<Rightarrow> jsstring \<Rightarrow> jsstring option \<Rightarrow> request" where
  "directions_request config start goal option waypoints =
     api_request config directions_endpoint (directions_params start goal option waypoints)"

definition reverse_geocode_request :: "config \<Rightarrow> jsstring \<Rightarrow> request" where
  "reverse_geocode_request config coords =
     api_request config reverse_geocode_endpoint
       [(asc ''coords'', Some (JStr coords)), (asc ''output'', Some (JStr (asc ''json'')))]"

definition static_map_request ::
  "config \<Rightarrow> jsstring \<Rightarrow> number \<Rightarrow> number \<Rightarrow> number \<Rightarrow> jsstring \<Rightarrow> request" where
  "static_map_request config center level w h format =
     api_request config static_map_endpoint (static_map_params center level w h format)"

text \<open>The Transport Error of a response, and the text a handler makes of an error message.\<close>

definition transport_error :: "nat \<Rightarrow> jsstring \<Rightarrow> jsstring" where
  "transport_error code reason = msg_api_error @ dec code @ asc '' '' @ reason"

definition error_text :: "jsstring \<Rightarrow> content list" where
  "error_text m = [TextItem (msg_error_prefix @ m)]"

text \<open>
  The message with which a Gateway call for a JSON value fails on the answer to \<open>req\<close>: the
  message of a rejected \<open>fetch\<close>, the Transport Error of a status outside the success
  range, or the message of a body that is not JSON; \<open>None\<close> when the call succeeds.
\<close>

definition json_failure :: "provider \<Rightarrow> nat \<Rightarrow> request \<Rightarrow> jsstring option" where
  "json_failure net i req =
     (case net i req of
        Rejected m \<Rightarrow> Some m
      | Resolved r \<Rightarrow>
          if \<not> ok r then Some (transport_error (status r) (statusText r))
          else (case body_json r of Inl m \<Rightarrow> Some m | Inr j \<Rightarrow> None))"

text \<open>
  The candidates of a geocode answer, and \<open>"<lon>,<lat>"\<close> of a candidate.
\<close>

definition candidates :: "api_json \<Rightarrow> address list" where
  "candidates j = (case addresses j of None \<Rightarrow> [] | Some as \<Rightarrow> as)"

definition lon_lat :: "address \<Rightarrow> jsstring" where
  "lon_lat a = template (addr_x a) @ asc '','' @ template (addr_y a)"

text \<open>
  The value that the geocoding step forwards for the input \<open>s\<close>, when the geocode call for
  it was answered with \<open>j\<close>: the first candidate, or \<open>s\<close> itself when there is none.
\<close>

definition forwarded :: "api_json \<Rightarrow> jsstring \<Rightarrow> jsstring" where
  "forwarded j s = (case candidates j of [] \<Rightarrow> s | a # as \<Rightarrow> lon_lat a)"

text \<open>
  The geocoding step as the handlers of \<open>naver_directions\<close> perform it, for one input: a
  name for the conditional that the source repeats for \<open>start\<close> and for \<open>goal\<close>.
\<close>

definition geocode_step :: "config \<Rightarrow> provider \<Rightarrow> jsstring \<Rightarrow> jsstring io" where
  "geocode_step config net s =
     (if \<not> isCoordinate s then
        and_then
          (makeNaverAPIRequest config net geocode_endpoint [(asc ''query'', Some (JStr s))] False)
          (\<lambda>geo. succeed (first_coordinates geo s))
      else succeed s)"

text \<open>
  The ordered scan of the specification: the first element of the first list that is not
  empty. The four profile lists of a directions answer, in the order of precedence; a
  missing list counts as empty.
\<close>

fun first_nonempty :: "'a list list \<Rightarrow> 'a option" where
  "first_nonempty [] = None"
| "first_nonempty ([] # ls) = first_nonempty ls"
| "first_nonempty ((x # xs) # ls) = Some x"

definition listed :: "'a list option \<Rightarrow> 'a list" where
  "listed l = (case l of None \<Rightarrow> [] | Some xs \<Rightarrow> xs)"

definition profile_lists :: "api_json \<Rightarrow> route_item list list" where
  "profile_lists j =
     (case route j of
        None \<Rightarrow> []
      | Some r \<Rightarrow> [listed (trafast r), listed (traoptimal r), listed (tracomfort r),
                   listed (trainormal r)])"

text \<open>
  The bytes of an image item: the text after the \<open>data:image/...;base64,\<close> prefix of its
  data URI, decoded.
\<close>

definition image_bytes :: "jsstring \<Rightarrow> jsstring \<Rightarrow> byte list option" where
  "image_bytes format uri =
     base64_decode (drop (length (asc ''data:image/'' @ format @ asc '';base64,'')) uri)"

text \<open>
  A computation surfaces transport errors when, whichever requests it issues, one that is
  answered with a status outside the success range makes it end with the Transport Error
  of that answer.
\<close>

definition surfaces :: "provider \<Rightarrow> 'a io \<Rightarrow> bool" where
  "surfaces net m \<longleftrightarrow>
     (\<forall>issued. \<exists>new. snd (m issued) = issued @ new \<and>
        (\<forall>k r. k < length new \<and> net (length issued + k) (new ! k) = Resolved r \<and> \<not> ok r \<longrightarrow>
           fst (m issued) = Inl (Error (transport_error (status r) (statusText r)))))"

section \<open>A stub provider\<close>

text \<open>
  Concrete inputs for the examples below: a configuration, and responses of the provider
  with a given status and bodies.
\<close>

definition stub_config :: config where
  "stub_config = \<lparr>NAVER_CLIENT_ID = asc ''id'', NAVER_CLIENT_SECRET = asc ''secret'', debug = False\<rparr>"

definition no_members :: api_json where
  "no_members = \<lparr>addresses = None, route = None, results = None\<rparr>"

definition json_response :: "api_json \<Rightarrow> response" where
  "json_response j = \<lparr>status = 200, statusText = asc ''OK'', body_json = Inr j, body_bytes = []\<rparr>"

definition bytes_response :: "byte list \<Rightarrow> response" where
  "bytes_response bs =
     \<lparr>status = 200, statusText = asc ''OK'', body_json = Inl (asc ''Unexpected token''),
      body_bytes = bs\<rparr>"

definition forbidden :: response where
  "forbidden =
     \<lparr>status = 403, statusText = asc ''Forbidden'', body_json = Inr no_members, body_bytes = []\<rparr>"

definition comfort_route :: route_item where
  "comfort_route =
     \<lparr>route_summary =
        \<lparr>distance = Some (Finite 12345), duration = Some (Finite 3725000),
         tollFare = Some (Finite 1234), fuelPrice = None,
         start_location = Some (JArr [JNum (Finite 127), JNum (Finite (75 / 2))]),
         goal_location = Some (JArr [JNum (Finite 129), JNum (Finite (141 / 4))])\<rparr>\<rparr>"

definition only_comfort :: api_json where
  "only_comfort =
     \<lparr>addresses = None,
      route = Some \<lparr>trafast = None, traoptimal = None, tracomfort = Some [comfort_route],
                    trainormal = None\<rparr>,
      results = None\<rparr>"

definition city_hall :: api_json where
  "city_hall =
     \<lparr>addresses = None, route = None,
      results = Some [\<lparr>region_text = Some (JStr (asc ''Teheran-ro''))\<rparr>]\<rparr>"

definition seoul :: api_json where
  "seoul =
     \<lparr>addresses =
        Some [\<lparr>addr_x = Some (JStr (asc ''126.978'')), addr_y = Some (JStr (asc ''37.5665'')),
               addr_roadAddress = Some (JStr (asc ''Sejong-daero'')), addr_jibunAddress = None\<rparr>],
      route = None, results = None\<rparr>"

text \<open>
  A provider that knows one address, \<open>Seoul\<close>, answers every other geocode request with
  no candidate, and answers the static-map endpoint with four bytes.
\<close>

definition stub_provider :: provider where
  "stub_provider i req =
     (if req_path req = static_map_endpoint then Resolved (bytes_response [137, 80, 78, 71])
      else if req_query req = [(asc ''query'', asc ''Seoul'')] then Resolved (json_response seoul)
      else Resolved (json_response no_members))"

text \<open>The same provider, except that the first request of a run is answered \<open>403 Forbidden\<close>.\<close>

definition first_fails :: provider where
  "first_fails i req = (if i = 0 then Resolved forbidden else stub_provider i req)"



section \<open>Properties\<close>

subsection \<open>Sequencing and the Gateway\<close>

lemma and_then_succeed: "and_then (succeed a) f issued = f a issued"
  by (simp add: and_then_def succeed_def)

lemma and_then_throw: "and_then (throw e) f issued = (Inl e, issued)"
  by (simp add: and_then_def throw_def)

lemma and_then_Inl: "m issued = (Inl e, issued') \<Longrightarrow> and_then m f issued = (Inl e, issued')"
  by (simp add: and_then_def)

lemma and_then_Inr: "m issued = (Inr a, issued') \<Longrightarrow> and_then m f issued = f a issued'"
  by (simp add: and_then_def)

lemma try_catch_Inl:
  "body issued = (Inl e, issued') \<Longrightarrow>
   try_catch body issued = ([TextItem (msg_error_prefix @ message e)], issued')"
  by (simp add: try_catch_def)

lemma try_catch_Inr: "body issued = (Inr res, issued') \<Longrightarrow> try_catch body issued = (res, issued')"
  by (simp add: try_catch_def)

lemma request_rejected:
  "net (length issued) (api_request config endpoint params) = Rejected m \<Longrightarrow>
   makeNaverAPIRequest config net endpoint params expectBinary issued =
     (Inl (Error m), issued @ [api_request config endpoint params])"
  by (simp add: makeNaverAPIRequest_def)

lemma request_not_ok:
  "net (length issued) (api_request config endpoint params) = Resolved r \<Longrightarrow> \<not> ok r \<Longrightarrow>
   makeNaverAPIRequest config net endpoint params expectBinary issued =
     (Inl (Error (msg_api_error @ dec (status r) @ asc '' '' @ statusText r)),
      issued @ [api_request config endpoint params])"
  by (simp add: makeNaverAPIRequest_def)

lemma request_binary:
  "net (length issued) (api_request config endpoint params) = Resolved r \<Longrightarrow> ok r \<Longrightarrow>
   makeNaverAPIRequest config net endpoint params True issued =
     (Inr (Binary (body_bytes r)), issued @ [api_request config endpoint params])"
  by (simp add: makeNaverAPIRequest_def)

lemma request_json:
  "net (length issued) (api_request config endpoint params) = Resolved r \<Longrightarrow> ok r \<Longrightarrow>
   body_json r = Inr j \<Longrightarrow>
   makeNaverAPIRequest config net endpoint params False issued =
     (Inr (Json j), issued @ [api_request config endpoint params])"
  by (simp add: makeNaverAPIRequest_def)

lemma request_not_json:
  "net (length issued) (api_request config endpoint params) = Resolved r \<Longrightarrow> ok r \<Longrightarrow>
   body_json r = Inl m \<Longrightarrow>
   makeNaverAPIRequest config net endpoint params False issued =
     (Inl (Error m), issued @ [api_request config endpoint params])"
  by (simp add: makeNaverAPIRequest_def)

lemma request_issued:
  "snd (makeNaverAPIRequest config net endpoint params expectBinary issued) =
     issued @ [api_request config endpoint params]"
  by (simp add: makeNaverAPIRequest_def Let_def split: fetch_result.splits sum.splits)

lemma request_answers_json:
  "answers_json net (length issued) (api_request config endpoint params) j \<Longrightarrow>
   makeNaverAPIRequest config net endpoint params False issued =
     (Inr (Json j), issued @ [api_request config endpoint params])"
  by (auto simp: answers_json_def makeNaverAPIRequest_def split: fetch_result.splits)

lemma request_answers_bytes:
  "answers_bytes net (length issued) (api_request config endpoint params) bs \<Longrightarrow>
   makeNaverAPIRequest config net endpoint params True issued =
     (Inr (Binary bs), issued @ [api_request config endpoint params])"
  by (auto simp: answers_bytes_def makeNaverAPIRequest_def split: fetch_result.splits)

lemma request_answers_status:
  "answers_status net (length issued) (api_request config endpoint params) code reason \<Longrightarrow>
   makeNaverAPIRequest config net endpoint params expectBinary issued =
     (Inl (Error (transport_error code reason)), issued @ [api_request config endpoint params])"
  by (auto simp: answers_status_def makeNaverAPIRequest_def transport_error_def
      split: fetch_result.splits)

lemma surfaces_succeed: "surfaces net (succeed a)"
  by (simp add: surfaces_def succeed_def)

lemma surfaces_throw: "surfaces net (throw e)"
  by (simp add: surfaces_def throw_def)

lemma surfaces_request: "surfaces net (makeNaverAPIRequest config net endpoint params expectBinary)"
  unfolding surfaces_def
proof
  fix issued
  let ?req = "api_request config endpoint params"
  have "snd (makeNaverAPIRequest config net endpoint params expectBinary issued) = issued @ [?req]"
    by (rule request_issued)
  moreover have "fst (makeNaverAPIRequest config net endpoint params expectBinary issued) =
      Inl (Error (transport_error (status r) (statusText r)))"
    if "net (length issued) ?req = Resolved r" and "\<not> ok r" for r
    using that by (simp add: request_not_ok transport_error_def)
  ultimately show "\<exists>new. snd (makeNaverAPIRequest config net endpoint params expectBinary issued) =
      issued @ new \<and>
      (\<forall>k r. k < length new \<and> net (length issued + k) (new ! k) = Resolved r \<and> \<not> ok r \<longrightarrow>
         fst (makeNaverAPIRequest config net endpoint params expectBinary issued) =
         Inl (Error (transport_error (status r) (statusText r))))"
    by (intro exI [of _ "[?req]"]) auto
qed

lemma surfaces_and_then:
  assumes m: "surfaces net m" and f: "\<And>a. surfaces net (f a)"
  shows "surfaces net (and_then m f)"
  unfolding surfaces_def
proof
  fix issued
  from m obtain new1 where new1: "snd (m issued) = issued @ new1"
    and bad1: "\<And>k r. k < length new1 \<Longrightarrow> net (length issued + k) (new1 ! k) = Resolved r \<Longrightarrow>
      \<not> ok r \<Longrightarrow> fst (m issued) = Inl (Error (transport_error (status r) (statusText r)))"
    unfolding surfaces_def by blast
  show "\<exists>new. snd (and_then m f issued) = issued @ new \<and>
      (\<forall>k r. k < length new \<and> net (length issued + k) (new ! k) = Resolved r \<and> \<not> ok r \<longrightarrow>
         fst (and_then m f issued) = Inl (Error (transport_error (status r) (statusText r))))"
  proof (cases "fst (m issued)")
    case (Inl e)
    then have "and_then m f issued = (Inl e, issued @ new1)"
      using new1 by (cases "m issued") (simp add: and_then_def)
    then show ?thesis
      using bad1 Inl by (intro exI [of _ new1]) auto
  next
    case (Inr a)
    then have run: "and_then m f issued = f a (issued @ new1)"
      using new1 by (cases "m issued") (simp add: and_then_def)
    from f [of a] obtain new2 where new2: "snd (f a (issued @ new1)) = (issued @ new1) @ new2"
      and bad2: "\<And>k r. k < length new2 \<Longrightarrow>
        net (length (issued @ new1) + k) (new2 ! k) = Resolved r \<Longrightarrow> \<not> ok r \<Longrightarrow>
        fst (f a (issued @ new1)) = Inl (Error (transport_error (status r) (statusText r)))"
      unfolding surfaces_def by blast
    have "fst (and_then m f issued) = Inl (Error (transport_error (status r) (statusText r)))"
      if k: "k < length (new1 @ new2)"
        and r: "net (length issued + k) ((new1 @ new2) ! k) = Resolved r" "\<not> ok r" for k r
    proof (cases "k < length new1")
      case True
      with r bad1 [of k r] Inr show ?thesis
        by (simp add: nth_append)
    next
      case False
      then have "k - length new1 < length new2"
        "net (length (issued @ new1) + (k - length new1)) (new2 ! (k - length new1)) = Resolved r"
        using k r by (simp_all add: nth_append)
      from bad2 [OF this \<open>\<not> ok r\<close>] run show ?thesis
        by simp
    qed
    then show ?thesis
      using run new2 by (intro exI [of _ "new1 @ new2"]) auto
  qed
qed

lemma surfaces_if: "surfaces net m \<Longrightarrow> surfaces net n \<Longrightarrow> surfaces net (if c then m else n)"
  by simp

lemma surfaces_directions: "surfaces net (directions_try config net start goal option waypoints)"
  unfolding directions_try_def
  by (intro surfaces_and_then surfaces_if surfaces_request surfaces_succeed)

lemma surfaces_geocode: "surfaces net (geocode_try config net address)"
  unfolding geocode_try_def
  by (intro surfaces_and_then surfaces_request surfaces_succeed)

lemma surfaces_reverse_geocode: "surfaces net (reverse_geocode_try config net lat lng)"
  unfolding reverse_geocode_try_def
  by (intro surfaces_and_then surfaces_request surfaces_succeed)

lemma surfaces_option: "surfaces net m \<Longrightarrow> (\<And>a. surfaces net (f a)) \<Longrightarrow>
  surfaces net (case v of None \<Rightarrow> m | Some a \<Rightarrow> f a)"
  by (cases v) simp_all

lemma surfaces_payload: "(\<And>j. surfaces net (f j)) \<Longrightarrow> (\<And>bs. surfaces net (g bs)) \<Longrightarrow>
  surfaces net (case p of Json j \<Rightarrow> f j | Binary bs \<Rightarrow> g bs)"
  by (cases p) simp_all

lemma surfaces_static_map: "surfaces net (static_map_try config net center level w h format)"
  unfolding static_map_try_def
  by (intro surfaces_and_then surfaces_if surfaces_request surfaces_succeed surfaces_option
      surfaces_payload surfaces_throw)

lemma try_catch_surfaces:
  assumes "surfaces net body" and "try_catch body issued = (res, issued')"
    and "length issued \<le> k" "k < length issued'" "net k (issued' ! k) = Resolved r" "\<not> ok r"
  shows "res = error_text (transport_error (status r) (statusText r))"
proof -
  from assms(1) obtain new where new: "snd (body issued) = issued @ new"
    and bad: "\<And>k r. k < length new \<Longrightarrow> net (length issued + k) (new ! k) = Resolved r \<Longrightarrow>
      \<not> ok r \<Longrightarrow> fst (body issued) = Inl (Error (transport_error (status r) (statusText r)))"
    unfolding surfaces_def by blast
  have issued': "issued' = issued @ new"
    using assms(2) new by (cases "body issued") (auto simp: try_catch_def split: sum.splits)
  have "k - length issued < length new"
    "net (length issued + (k - length issued)) (new ! (k - length issued)) = Resolved r"
    using assms(3-5) issued' by (simp_all add: nth_append)
  from bad [OF this \<open>\<not> ok r\<close>] assms(2) show ?thesis
    by (cases "body issued") (auto simp: try_catch_def error_text_def)
qed

subsection \<open>The runs of the directions handler\<close>

lemma request_cases:
  obtains (json) j where
      "answers_json net (length issued) (api_request config endpoint params) j"
      "makeNaverAPIRequest config net endpoint params False issued =
         (Inr (Json j), issued @ [api_request config endpoint params])"
  | (error) err where
      "\<forall>j. \<not> answers_json net (length issued) (api_request config endpoint params) j"
      "makeNaverAPIRequest config net endpoint params False issued =
         (Inl err, issued @ [api_request config endpoint params])"
proof (cases "net (length issued) (api_request config endpoint params)")
  case (Rejected m)
  then show ?thesis
    using error [of "Error m"] by (simp add: answers_json_def request_rejected)
next
  case (Resolved r)
  show ?thesis
  proof (cases "ok r")
    case False
    with Resolved show ?thesis
      using error by (simp add: answers_json_def request_not_ok)
  next
    case True
    show ?thesis
    proof (cases "body_json r")
      case (Inl m)
      with Resolved True show ?thesis
        using error [of "Error m"] by (simp add: answers_json_def request_not_json)
    next
      case (Inr j)
      with Resolved True show ?thesis
        using json [of j] by (simp add: answers_json_def request_json)
    qed
  qed
qed

lemma answers_json_unique:
  "answers_json net i req j \<Longrightarrow> answers_json net i req j' \<Longrightarrow> j = j'"
  by (auto simp: answers_json_def split: fetch_result.splits)

lemma first_coordinates_forwarded: "first_coordinates (Json j) s = forwarded j s"
  by (simp add: first_coordinates_def forwarded_def candidates_def addresses_of_def first_of_def
      lon_lat_def split: option.splits list.splits)

lemma geocode_step_cases:
  obtains (coordinate)
      "isCoordinate s" "geocode_step config net s issued = (Inr s, issued)"
  | (geocoded) j where
      "\<not> isCoordinate s" "answers_json net (length issued) (geocode_request config s) j"
      "geocode_step config net s issued =
         (Inr (forwarded j s), issued @ [geocode_request config s])"
  | (failed) err where
      "\<not> isCoordinate s" "\<forall>j. \<not> answers_json net (length issued) (geocode_request config s) j"
      "geocode_step config net s issued = (Inl err, issued @ [geocode_request config s])"
proof (cases "isCoordinate s")
  case True
  then show ?thesis
    using coordinate by (simp add: geocode_step_def succeed_def)
next
  case False
  show ?thesis
  proof (cases rule: request_cases [of net issued config geocode_endpoint
        "[(asc ''query'', Some (JStr s))]"])
    case (json j)
    with False show ?thesis
      using geocoded [of j]
      by (simp add: geocode_step_def geocode_request_def and_then_def succeed_def
          first_coordinates_forwarded)
  next
    case (error err)
    with False show ?thesis
      using failed [of err] by (simp add: geocode_step_def geocode_request_def and_then_def)
  qed
qed

lemma directions_try_steps:
  "directions_try config net start goal option waypoints =
     and_then (geocode_step config net start)
       (\<lambda>startCoords.
          and_then (geocode_step config net goal)
            (\<lambda>goalCoords.
               and_then
                 (makeNaverAPIRequest config net directions_endpoint
                    (directions_params startCoords goalCoords option waypoints) False)
                 (\<lambda>data. succeed (directions_result data))))"
  by (simp add: directions_try_def geocode_step_def)

lemma directions_call_cases:
  obtains (found) j where
      "answers_json net (length issued) (directions_request config s g option waypoints) j"
      "and_then
         (makeNaverAPIRequest config net directions_endpoint
            (directions_params s g option waypoints) False)
         (\<lambda>data. succeed (directions_result data)) issued =
       (Inr (directions_result (Json j)), issued @ [directions_request config s g option waypoints])"
  | (failed) err where
      "\<forall>j. \<not> answers_json net (length issued) (directions_request config s g option waypoints) j"
      "and_then
         (makeNaverAPIRequest config net directions_endpoint
            (directions_params s g option waypoints) False)
         (\<lambda>data. succeed (directions_result data)) issued =
       (Inl err, issued @ [directions_request config s g option waypoints])"
proof (cases rule: request_cases [of net issued config directions_endpoint
      "directions_params s g option waypoints"])
  case (json j)
  then show ?thesis
    using found [of j] by (simp add: directions_request_def and_then_def succeed_def)
next
  case (error err)
  then show ?thesis
    using failed [of err] by (simp add: directions_request_def and_then_def)
qed

lemma geocode_step_outcome:
  obtains (ok) s' issued1 where
      "geocode_step config net s issued = (Inr s', issued1)" "length issued \<le> length issued1"
  | (failed) err where
      "geocode_step config net s issued = (Inl err, issued @ [geocode_request config s])"
      "\<forall>j. \<not> answers_json net (length issued) (geocode_request config s) j"
  by (cases rule: geocode_step_cases [of s config net issued]) auto

lemma directions_try_failed1:
  "geocode_step config net start issued = (Inl err, issued1) \<Longrightarrow>
   directions_try config net start goal option waypoints issued = (Inl err, issued1)"
  by (simp add: directions_try_steps and_then_Inl)

lemma directions_try_failed2:
  "geocode_step config net start issued = (Inr s, issued1) \<Longrightarrow>
   geocode_step config net goal issued1 = (Inl err, issued2) \<Longrightarrow>
   directions_try config net start goal option waypoints issued = (Inl err, issued2)"
  by (simp add: directions_try_steps and_then_Inl and_then_Inr)

lemma directions_try_call:
  "geocode_step config net start issued = (Inr s, issued1) \<Longrightarrow>
   geocode_step config net goal issued1 = (Inr g, issued2) \<Longrightarrow>
   directions_try config net start goal option waypoints issued =
     and_then
       (makeNaverAPIRequest config net directions_endpoint
          (directions_params s g option waypoints) False)
       (\<lambda>data. succeed (directions_result data)) issued2"
  by (simp add: directions_try_steps and_then_Inr)

text \<open>
  Every run of the directions handler ends with a request that failed, or with the
  directions request answered with some JSON value, whose result it returns.
\<close>

lemma directions_try_last:
  assumes run: "directions_try config net start goal option waypoints issued = (outcome, issued')"
  shows "length issued < length issued' \<and>
    ((\<exists>err. outcome = Inl err \<and> (\<forall>j. \<not> answers_json net (length issued' - 1) (last issued') j)) \<or>
     (\<exists>j s g. outcome = Inr (directions_result (Json j)) \<and>
        answers_json net (length issued' - 1) (last issued') j \<and>
        last issued' = directions_request config s g option waypoints))"
proof (cases rule: geocode_step_outcome [of config net start issued])
  case (failed err)
  from directions_try_failed1 [OF failed(1)] run
  have "outcome = Inl err" "issued' = issued @ [geocode_request config start]"
    by simp_all
  with failed(2) show ?thesis
    by simp
next
  case (ok s issued1)
  note step1 = this
  show ?thesis
  proof (cases rule: geocode_step_outcome [of config net goal issued1])
    case (failed err)
    from directions_try_failed2 [OF step1(1) failed(1)] run
    have "outcome = Inl err" "issued' = issued1 @ [geocode_request config goal]"
      by simp_all
    with failed(2) step1(2) show ?thesis
      by simp
  next
    case (ok g issued2)
    note step2 = this
    show ?thesis
    proof (cases rule: directions_call_cases [of net issued2 config s g option waypoints])
      case (found j)
      from directions_try_call [OF step1(1) step2(1)] found(2) run
      have "outcome = Inr (directions_result (Json j))"
        "issued' = issued2 @ [directions_request config s g option waypoints]"
        by simp_all
      with found(1) step1(2) step2(2) show ?thesis
        by auto
    next
      case (failed err)
      from directions_try_call [OF step1(1) step2(1)] failed(2) run
      have "outcome = Inl err"
        "issued' = issued2 @ [directions_request config s g option waypoints]"
        by simp_all
      with failed(1) step1(2) step2(2) show ?thesis
        by simp
    qed
  qed
qed

lemma directions_try_json:
  assumes "directions_try config net start goal option waypoints issued = (outcome, issued')"
    and "answers_json net (length issued' - 1) (last issued') j"
  shows "outcome = Inr (directions_result (Json j))"
  using directions_try_last [OF assms(1)] assms(2) by (auto dest: answers_json_unique)

lemma naver_directions_json:
  assumes "naver_directions config net start goal option waypoints issued = (res, issued')"
    and "answers_json net (length issued' - 1) (last issued') j"
  shows "res = directions_result (Json j)"
proof -
  obtain outcome where run: "directions_try config net start goal option waypoints issued =
      (outcome, issued')"
    using assms(1)
    by (cases "directions_try config net start goal option waypoints issued")
      (auto simp: naver_directions_def try_catch_def split: sum.splits)
  from directions_try_json [OF run assms(2)] run assms(1) show ?thesis
    by (simp add: naver_directions_def try_catch_def)
qed

lemma best_route_first_nonempty: "best_route (Json j) = first_nonempty (profile_lists j)"
  by (auto simp: best_route_def profile_lists_def route_of_def no_routes_def first_of_def
      or_else_def listed_def split: option.splits list.splits)

subsection \<open>Base64\<close>

lemma b64index_b64char: "i < 64 \<Longrightarrow> b64index (b64char i) = Some i"
  by (auto simp: b64index_def b64char_def)

lemma b64char_not_pad: "i < 64 \<Longrightarrow> b64char i \<noteq> 61"
  by (auto simp: b64char_def)

lemma b64index_pad: "b64index 61 = None"
  by (simp add: b64index_def)

lemma unat_byte: "unat (a :: byte) < 256"
  using unsigned_less [of a, where 'a = nat] by simp

lemma decode_group3:
  assumes "i1 < 64" "i2 < 64" "i3 < 64" "i4 < 64" and "base64_decode cs = Some bs"
  shows "base64_decode (b64char i1 # b64char i2 # b64char i3 # b64char i4 # cs) =
    Some (of_nat (i1 * 4 + i2 div 16) # of_nat (i2 mod 16 * 16 + i3 div 4) #
          of_nat (i3 mod 4 * 64 + i4) # bs)"
  using assms by (simp add: b64index_b64char b64char_not_pad)

lemma decode_group2:
  assumes "i1 < 64" "i2 < 64" "i3 < 64"
  shows "base64_decode [b64char i1, b64char i2, b64char i3, 61] =
    Some [of_nat (i1 * 4 + i2 div 16), of_nat (i2 mod 16 * 16 + i3 div 4)]"
  using assms by (simp add: b64index_b64char b64char_not_pad)

lemma decode_group1:
  assumes "i1 < 64" "i2 < 64"
  shows "base64_decode [b64char i1, b64char i2, 61, 61] = Some [of_nat (i1 * 4 + i2 div 16)]"
  using assms by (simp add: b64index_b64char)

lemma base64_decode_base64: "base64_decode (base64 bs) = Some bs"
proof (induction bs rule: base64.induct)
  case (1 a b c bs)
  have a: "unat a < 256" and b: "unat b < 256" and c: "unat c < 256"
    by (rule unat_byte)+
  let ?i1 = "unat a div 4" and ?i2 = "unat a mod 4 * 16 + unat b div 16"
  let ?i3 = "unat b mod 16 * 4 + unat c div 64" and ?i4 = "unat c mod 64"
  have lt: "?i1 < 64" "?i2 < 64" "?i3 < 64" "?i4 < 64"
    using a b c by auto
  have "?i1 * 4 + ?i2 div 16 = unat a" "?i2 mod 16 * 16 + ?i3 div 4 = unat b"
    "?i3 mod 4 * 64 + ?i4 = unat c"
    using a b c by auto
  then have bytes: "(of_nat (?i1 * 4 + ?i2 div 16) :: byte) = a"
    "(of_nat (?i2 mod 16 * 16 + ?i3 div 4) :: byte) = b"
    "(of_nat (?i3 mod 4 * 64 + ?i4) :: byte) = c"
    by simp_all
  have "base64_decode (base64 (a # b # c # bs)) =
    Some (of_nat (?i1 * 4 + ?i2 div 16) # of_nat (?i2 mod 16 * 16 + ?i3 div 4) #
          of_nat (?i3 mod 4 * 64 + ?i4) # bs)"
    unfolding base64.simps using lt "1.IH" by (rule decode_group3)
  then show ?case
    unfolding bytes .
next
  case (2 a b)
  have a: "unat a < 256" and b: "unat b < 256"
    by (rule unat_byte)+
  let ?i1 = "unat a div 4" and ?i2 = "unat a mod 4 * 16 + unat b div 16"
  let ?i3 = "unat b mod 16 * 4"
  have lt: "?i1 < 64" "?i2 < 64" "?i3 < 64"
    using a b by auto
  have "?i1 * 4 + ?i2 div 16 = unat a" "?i2 mod 16 * 16 + ?i3 div 4 = unat b"
    using a b by auto
  then have bytes: "(of_nat (?i1 * 4 + ?i2 div 16) :: byte) = a"
    "(of_nat (?i2 mod 16 * 16 + ?i3 div 4) :: byte) = b"
    by simp_all
  have "base64_decode (base64 [a, b]) =
    Some [of_nat (?i1 * 4 + ?i2 div 16), of_nat (?i2 mod 16 * 16 + ?i3 div 4)]"
    unfolding base64.simps using lt by (rule decode_group2)
  then show ?case
    unfolding bytes .
next
  case (3 a)
  have a: "unat a < 256"
    by (rule unat_byte)
  let ?i1 = "unat a div 4" and ?i2 = "unat a mod 4 * 16"
  have lt: "?i1 < 64" "?i2 < 64"
    using a by auto
  have "?i1 * 4 + ?i2 div 16 = unat a"
    using a by auto
  then have bytes: "(of_nat (?i1 * 4 + ?i2 div 16) :: byte) = a"
    by simp
  have "base64_decode (base64 [a]) = Some [of_nat (?i1 * 4 + ?i2 div 16)]"
    unfolding base64.simps using lt by (rule decode_group1)
  then show ?case
    unfolding bytes .
next
  case 4
  show ?case by simp
qed

subsection \<open>The Coordinate Classifier\<close>

lemma split_comma_nonempty: "split_comma s \<noteq> []"
  by (induction s) (auto split: list.splits)

text \<open>
  C1. The classifier is to accept exactly the strings of two comma-separated numbers within
  the longitude and latitude ranges. The revision with the range check reads the first two
  pieces of the split and never looks at the number of pieces, so it accepts \<open>1,2,3\<close>, which
  the earlier revisions reject by comparing the number of pieces with 2; the earlier
  revisions in turn have no range check and accept \<open>200,10\<close>, which the later one rejects.
\<close>

theorem isCoordinate_accepts_three_parts:
  "isCoordinate (asc ''1,2,3'') \<and> \<not> isCoordinate_unranged (asc ''1,2,3'') \<and>
   isCoordinate_unranged (asc ''200,10'') \<and> \<not> isCoordinate (asc ''200,10'')"
  by code_simp

subsection \<open>Transport errors\<close>

lemma sublist_dec_error: "sublist (dec code) (msg_error_prefix @ transport_error code reason)"
  unfolding transport_error_def
  by (metis append.assoc sublist_appendI)

text \<open>
  The Gateway with \<open>expectBinary\<close>: a call that is answered with a status outside the
  success range ends with the Transport Error carrying the status code and the reason
  phrase, never with a payload; and whichever tool is invoked, if one of the requests it
  issues is answered so, its result is the one text item made of that error, which contains
  the status code.
\<close>

lemma transport_error_surfaces:
  "(answers_status net (length issued0) (api_request config endpoint params) code reason \<longrightarrow>
      makeNaverAPIRequest config net endpoint params expectBinary issued0 =
        (Inl (Error (transport_error code reason)), issued0 @ [api_request config endpoint params])) \<and>
   (invoke config net call issued = (res, issued') \<and> length issued \<le> k \<and> k < length issued' \<and>
    answers_status net k (issued' ! k) code reason \<longrightarrow>
      res = error_text (transport_error code reason) \<and>
      (\<exists>t. res = [TextItem t] \<and> sublist (dec code) t))"
proof (intro conjI impI)
  assume "answers_status net (length issued0) (api_request config endpoint params) code reason"
  then show "makeNaverAPIRequest config net endpoint params expectBinary issued0 =
      (Inl (Error (transport_error code reason)), issued0 @ [api_request config endpoint params])"
    by (rule request_answers_status)
next
  assume run: "invoke config net call issued = (res, issued') \<and> length issued \<le> k \<and>
    k < length issued' \<and> answers_status net k (issued' ! k) code reason"
  then obtain r where r: "net k (issued' ! k) = Resolved r" "\<not> ok r"
    and code: "status r = code" "statusText r = reason"
    by (auto simp: answers_status_def split: fetch_result.splits)
  have "\<exists>body. surfaces net body \<and> invoke config net call = try_catch body"
  proof (cases call)
    case (Directions start goal option waypoints)
    then have "invoke config net call = try_catch (directions_try config net start goal option waypoints)"
      by (simp add: naver_directions_def)
    with surfaces_directions show ?thesis
      by blast
  next
    case (Geocode address)
    then have "invoke config net call = try_catch (geocode_try config net address)"
      by (simp add: naver_geocode_def)
    with surfaces_geocode show ?thesis
      by blast
  next
    case (ReverseGeocode lat lng)
    then have "invoke config net call = try_catch (reverse_geocode_try config net lat lng)"
      by (simp add: naver_reverse_geocode_def)
    with surfaces_reverse_geocode show ?thesis
      by blast
  next
    case (StaticMap center level w h format)
    then have "invoke config net call = try_catch (static_map_try config net center level w h format)"
      by (simp add: naver_static_map_def)
    with surfaces_static_map show ?thesis
      by blast
  qed
  then obtain body where "surfaces net body" and "try_catch body issued = (res, issued')"
    using run by auto
  from try_catch_surfaces [OF this _ _ r] run code
  show res: "res = error_text (transport_error code reason)"
    by simp
  show "\<exists>t. res = [TextItem t] \<and> sublist (dec code) t"
    unfolding res error_text_def using sublist_dec_error by blast
qed

lemma dec_403: "dec 403 = asc ''403''"
  by code_simp

text \<open>
  The Gateway of the entry file on a host without \<open>window\<close>: whatever the status, the error
  is the one of the identifier.
\<close>

lemma request_index_not_ok:
  "net (length issued) (api_request_index config endpoint params) = Resolved r \<Longrightarrow> \<not> ok r \<Longrightarrow>
   makeNaverAPIRequest_index NodeJS config net endpoint params issued =
     (Inl (Error (asc ''window is not defined'')),
      issued @ [api_request_index config endpoint params])"
  by (simp add: makeNaverAPIRequest_index_def window_location_hostname_def)

lemma request_index_not_ok_browser:
  "net (length issued) (api_request_index config endpoint params) = Resolved r \<Longrightarrow> \<not> ok r \<Longrightarrow>
   makeNaverAPIRequest_index (Browser hostname) config net endpoint params issued =
     (Inl (Error (transport_error (status r) (statusText r) @ asc '' '' @ hostname)),
      issued @ [api_request_index config endpoint params])"
  by (simp add: makeNaverAPIRequest_index_def window_location_hostname_def transport_error_def)

text \<open>
  C3. The Gateway is to raise, for an answer with a status outside the success range, an
  error carrying the status code and the reason phrase, which the handler returns as text.
  The Gateway of the entry file does not under Node.js: answered \<open>403 Forbidden\<close>, it ends
  with the error \<open>window is not defined\<close>, thrown while the message is built, and the geocode
  handler of that file returns a text without the status code. The Gateway with
  \<open>expectBinary\<close>, whose message stops after the reason phrase, gives the text with
  \<open>403 Forbidden\<close> on the same answer.
\<close>

theorem transport_error_without_status:
  "makeNaverAPIRequest_index NodeJS stub_config (\<lambda>i req. Resolved forbidden) geocode_endpoint
     [(asc ''query'', Some (JStr (asc ''Seoul'')))] [] =
     (Inl (Error (asc ''window is not defined'')),
      [api_request_index stub_config geocode_endpoint [(asc ''query'', Some (JStr (asc ''Seoul'')))]]) \<and>
   naver_geocode_index NodeJS stub_config (\<lambda>i req. Resolved forbidden) (asc ''Seoul'') [] =
     ([TextItem (msg_error_prefix @ asc ''window is not defined'')],
      [api_request_index stub_config geocode_endpoint [(asc ''query'', Some (JStr (asc ''Seoul'')))]]) \<and>
   \<not> sublist (asc ''403'') (msg_error_prefix @ asc ''window is not defined'') \<and>
   naver_geocode stub_config (\<lambda>i req. Resolved forbidden) (asc ''Seoul'') [] =
     ([TextItem (msg_error_prefix @ msg_api_error @ asc ''403 Forbidden'')],
      [geocode_request stub_config (asc ''Seoul'')]) \<and>
   sublist (asc ''403'') (msg_error_prefix @ msg_api_error @ asc ''403 Forbidden'')"
proof (intro conjI)
  let ?net = "\<lambda>(i::nat) (req::request). Resolved forbidden"
  have bad: "\<not> ok forbidden"
    by (simp add: forbidden_def ok_def)
  show gateway: "makeNaverAPIRequest_index NodeJS stub_config ?net geocode_endpoint
      [(asc ''query'', Some (JStr (asc ''Seoul'')))] [] =
      (Inl (Error (asc ''window is not defined'')),
       [api_request_index stub_config geocode_endpoint [(asc ''query'', Some (JStr (asc ''Seoul'')))]])"
    using request_index_not_ok [of ?net "[]" stub_config geocode_endpoint
        "[(asc ''query'', Some (JStr (asc ''Seoul'')))]" forbidden] bad
    by simp
  then show "naver_geocode_index NodeJS stub_config ?net (asc ''Seoul'') [] =
      ([TextItem (msg_error_prefix @ asc ''window is not defined'')],
       [api_request_index stub_config geocode_endpoint [(asc ''query'', Some (JStr (asc ''Seoul'')))]])"
    by (simp add: naver_geocode_index_def geocode_try_index_def try_catch_def and_then_def)
  show "\<not> sublist (asc ''403'') (msg_error_prefix @ asc ''window is not defined'')"
    by code_simp
  have "naver_geocode stub_config ?net (asc ''Seoul'') [] =
      ([TextItem (msg_error_prefix @ msg_api_error @ dec 403 @ asc '' '' @ asc ''Forbidden'')],
       [geocode_request stub_config (asc ''Seoul'')])"
    using bad
    by (simp add: naver_geocode_def geocode_try_def try_catch_def and_then_def
        makeNaverAPIRequest_def geocode_request_def) (simp add: forbidden_def)
  then show "naver_geocode stub_config ?net (asc ''Seoul'') [] =
      ([TextItem (msg_error_prefix @ msg_api_error @ asc ''403 Forbidden'')],
       [geocode_request stub_config (asc ''Seoul'')])"
    by (simp add: dec_403 asc_def)
  show "sublist (asc ''403'') (msg_error_prefix @ msg_api_error @ asc ''403 Forbidden'')"
    by code_simp
qed

subsection \<open>Route selection\<close>

lemma naver_directions_last:
  assumes "naver_directions config net start goal option waypoints issued = (res, issued')"
    and "answers_json net (length issued' - 1) (last issued') j"
  shows "\<exists>s g. last issued' = directions_request config s g option waypoints"
proof -
  obtain outcome where run: "directions_try config net start goal option waypoints issued =
      (outcome, issued')"
    using assms(1)
    by (cases "directions_try config net start goal option waypoints issued")
      (auto simp: naver_directions_def try_catch_def split: sum.splits)
  from directions_try_last [OF run] assms(2) show ?thesis
    by auto
qed

lemma stub_coordinates: "isCoordinate (asc ''127.0,37.5'')" "isCoordinate (asc ''129.0,35.1'')"
  by code_simp+

text \<open>
  C2. The route that the directions handler selects is the first element of the first
  non-empty list among trafast, traoptimal, tracomfort and trainormal, in this order. When
  the last request of a run was answered with the JSON value \<open>j\<close>, that request is the
  directions request and the result is the text of the route selected from \<open>j\<close> (or the
  route-not-found text): a function of the answer alone, whichever option was requested.
  The example has only tracomfort populated and the option trafast requested.
\<close>

theorem route_selected_by_precedence:
  "best_route (Json j) = first_nonempty (profile_lists j) \<and>
   (naver_directions config net start goal option waypoints issued = (res, issued') \<and>
    answers_json net (length issued' - 1) (last issued') j \<longrightarrow>
      (\<exists>s g. last issued' = directions_request config s g option waypoints) \<and>
      res = (case first_nonempty (profile_lists j) of
               None \<Rightarrow> [TextItem msg_route_not_found]
             | Some best \<Rightarrow> [TextItem (route_text best)]))"
  using naver_directions_json [of config net start goal option waypoints issued res issued' j]
    naver_directions_last [of config net start goal option waypoints issued res issued' j]
  by (simp add: best_route_first_nonempty directions_result_def)

theorem route_selected_by_precedence_witness:
  "naver_directions stub_config (\<lambda>i req. Resolved (json_response only_comfort))
     (asc ''127.0,37.5'') (asc ''129.0,35.1'') (asc ''trafast'') None [] =
     ([TextItem (route_text comfort_route)],
      [directions_request stub_config (asc ''127.0,37.5'') (asc ''129.0,35.1'') (asc ''trafast'') None]) \<and>
   first_nonempty (profile_lists only_comfort) = Some comfort_route"
proof -
  let ?net = "\<lambda>(i::nat) (req::request). Resolved (json_response only_comfort)"
  let ?req = "directions_request stub_config (asc ''127.0,37.5'') (asc ''129.0,35.1'') (asc ''trafast'') None"
  obtain res issued' where run: "naver_directions stub_config ?net (asc ''127.0,37.5'')
      (asc ''129.0,35.1'') (asc ''trafast'') None [] = (res, issued')"
    by (cases "naver_directions stub_config ?net (asc ''127.0,37.5'')
      (asc ''129.0,35.1'') (asc ''trafast'') None []")
  have issued': "issued' = [?req]"
    using run
    by (simp add: naver_directions_def directions_try_def stub_coordinates and_then_succeed
        try_catch_def and_then_def makeNaverAPIRequest_def json_response_def ok_def succeed_def
        directions_request_def)
  have answer: "answers_json ?net (length issued' - 1) (last issued') only_comfort"
    by (simp add: answers_json_def json_response_def ok_def)
  have scan: "first_nonempty (profile_lists only_comfort) = Some comfort_route"
    by (simp add: profile_lists_def only_comfort_def listed_def)
  from route_selected_by_precedence [of only_comfort stub_config ?net "asc ''127.0,37.5''"
      "asc ''129.0,35.1''" "asc ''trafast''" None "[]" res issued'] run answer scan
  have "res = [TextItem (route_text comfort_route)]"
    by simp
  with run issued' scan show ?thesis
    by simp
qed

subsection \<open>Reverse geocoding\<close>

lemma naver_reverse_geocode_issued:
  "snd (naver_reverse_geocode config net lat lng issued) =
     issued @ [reverse_geocode_request config (Number_toString lng @ asc '','' @ Number_toString lat)]"
proof -
  let ?request = "makeNaverAPIRequest config net reverse_geocode_endpoint
      [(asc ''coords'', Some (JStr (Number_toString lng @ asc '','' @ Number_toString lat))),
       (asc ''output'', Some (JStr (asc ''json'')))] False"
  have "snd (?request issued) =
      issued @ [reverse_geocode_request config (Number_toString lng @ asc '','' @ Number_toString lat)]"
    by (simp add: request_issued reverse_geocode_request_def)
  then show ?thesis
    by (cases "?request issued")
      (auto simp: naver_reverse_geocode_def reverse_geocode_try_def try_catch_def and_then_def
        succeed_def split: sum.splits)
qed

text \<open>
  C6. For every \<open>lat\<close> and \<open>lng\<close> the reverse-geocode handler issues exactly one request,
  whose query is \<open>coords=<lng>,<lat>\<close> (longitude first) and \<open>output=json\<close>; and when that
  request is answered with at least one result, the handler returns the input coordinates
  in the order \<open>lat\<close>, \<open>lng\<close> together with the text label of the first result.
\<close>

theorem reverse_geocode_swaps_coordinates:
  "snd (naver_reverse_geocode config net lat lng issued) =
     issued @ [reverse_geocode_request config (Number_toString lng @ asc '','' @ Number_toString lat)] \<and>
   req_query (reverse_geocode_request config (Number_toString lng @ asc '','' @ Number_toString lat)) =
     [(asc ''coords'', Number_toString lng @ asc '','' @ Number_toString lat),
      (asc ''output'', asc ''json'')] \<and>
   (answers_json net (length issued)
      (reverse_geocode_request config (Number_toString lng @ asc '','' @ Number_toString lat)) j \<and>
    results j = Some (r # rs) \<and> region_text r = Some (JStr label) \<longrightarrow>
      fst (naver_reverse_geocode config net lat lng issued) =
        [TextItem (label_coordinates @ Number_toString lat @ asc '', '' @ Number_toString lng @
                   [10] @ label_address @ label)])"
proof (intro conjI impI)
  show "snd (naver_reverse_geocode config net lat lng issued) =
      issued @ [reverse_geocode_request config (Number_toString lng @ asc '','' @ Number_toString lat)]"
    by (rule naver_reverse_geocode_issued)
  show "req_query (reverse_geocode_request config (Number_toString lng @ asc '','' @ Number_toString lat)) =
      [(asc ''coords'', Number_toString lng @ asc '','' @ Number_toString lat),
       (asc ''output'', asc ''json'')]"
    by (simp add: reverse_geocode_request_def api_request_def searchParams_def)
next
  assume "answers_json net (length issued)
      (reverse_geocode_request config (Number_toString lng @ asc '','' @ Number_toString lat)) j \<and>
    results j = Some (r # rs) \<and> region_text r = Some (JStr label)"
  then have "makeNaverAPIRequest config net reverse_geocode_endpoint
      [(asc ''coords'', Some (JStr (Number_toString lng @ asc '','' @ Number_toString lat))),
       (asc ''output'', Some (JStr (asc ''json'')))] False issued =
      (Inr (Json j), issued @
        [reverse_geocode_request config (Number_toString lng @ asc '','' @ Number_toString lat)])"
    and "reverse_geocode_result lat lng (Json j) =
      [TextItem (label_coordinates @ Number_toString lat @ asc '', '' @ Number_toString lng @
                 [10] @ label_address @ label)]"
    by (simp_all add: reverse_geocode_request_def request_answers_json reverse_geocode_result_def
        results_of_def first_of_def template_def)
  then show "fst (naver_reverse_geocode config net lat lng issued) =
      [TextItem (label_coordinates @ Number_toString lat @ asc '', '' @ Number_toString lng @
                 [10] @ label_address @ label)]"
    by (simp add: naver_reverse_geocode_def reverse_geocode_try_def try_catch_def and_then_def
        succeed_def)
qed

lemma stub_numbers:
  "Number_toString (Finite (75 / 2)) = asc ''37.5''" "Number_toString (Finite 127) = asc ''127''"
  by code_simp+

theorem reverse_geocode_swaps_coordinates_witness:
  "naver_reverse_geocode stub_config (\<lambda>i req. Resolved (json_response city_hall))
     (Finite (75 / 2)) (Finite 127) [] =
     ([TextItem (label_coordinates @ asc ''37.5, 127'' @ [10] @ label_address @ asc ''Teheran-ro'')],
      [reverse_geocode_request stub_config (asc ''127,37.5'')])"
proof -
  let ?net = "\<lambda>(i::nat) (req::request). Resolved (json_response city_hall)"
  have answer: "answers_json ?net i req city_hall" for i req
    by (simp add: answers_json_def json_response_def ok_def)
  have result: "results city_hall = Some [\<lparr>region_text = Some (JStr (asc ''Teheran-ro''))\<rparr>]"
    "region_text \<lparr>region_text = Some (JStr (asc ''Teheran-ro''))\<rparr> = Some (JStr (asc ''Teheran-ro''))"
    by (simp_all add: city_hall_def)
  from reverse_geocode_swaps_coordinates [of stub_config ?net "Finite (75 / 2)" "Finite 127" "[]"
      city_hall "\<lparr>region_text = Some (JStr (asc ''Teheran-ro''))\<rparr>" "[]" "asc ''Teheran-ro''"]
    answer result
  have "snd (naver_reverse_geocode stub_config ?net (Finite (75 / 2)) (Finite 127) []) =
      [reverse_geocode_request stub_config (asc ''127,37.5'')]"
    and "fst (naver_reverse_geocode stub_config ?net (Finite (75 / 2)) (Finite 127) []) =
      [TextItem (label_coordinates @ asc ''37.5, 127'' @ [10] @ label_address @ asc ''Teheran-ro'')]"
    by (simp_all add: stub_numbers asc_def)
  then show ?thesis
    by (simp add: prod_eq_iff)
qed

subsection \<open>The text of a route\<close>






lemma fare_text_absent: "fare_text None = asc ''0'' @ won"
  by (simp add: fare_text_def)

lemma fare_text_zero: "fare_text (Some (Finite 0)) = asc ''0'' @ won"
  by (simp add: fare_text_def number_truthy_def)








subsection \<open>A fare of zero\<close>

text \<open>
  C10. A toll fare or a fuel price that is present with the value 0 is printed as the same
  zero string as a missing one, since the conditional tests the value for truth; the texts
  of two routes that differ in this only are equal.
\<close>

theorem zero_fare_printed_as_absent:
  "fare_text (Some (Finite 0)) = asc ''0'' @ won \<and>
   fare_text None = asc ''0'' @ won \<and>
   route_text \<lparr>route_summary = s\<lparr>tollFare := Some (Finite 0)\<rparr>\<rparr> =
     route_text \<lparr>route_summary = s\<lparr>tollFare := None\<rparr>\<rparr> \<and>
   route_text \<lparr>route_summary = s\<lparr>fuelPrice := Some (Finite 0)\<rparr>\<rparr> =
     route_text \<lparr>route_summary = s\<lparr>fuelPrice := None\<rparr>\<rparr>"
  by (simp add: fare_text_zero fare_text_absent route_text_def)

subsection \<open>The geocoding step\<close>

lemma snd_try_catch: "snd (try_catch body issued) = snd (body issued)"
  by (cases "body issued") (auto simp: try_catch_def split: sum.splits)

lemma snd_directions_call:
  "snd (and_then
          (makeNaverAPIRequest config net directions_endpoint
             (directions_params s g option waypoints) False)
          (\<lambda>data. succeed (directions_result data)) issued) =
     issued @ [directions_request config s g option waypoints]"
  by (cases rule: directions_call_cases [of net issued config s g option waypoints]) simp_all

lemma geocode_step_answered:
  "isCoordinate s \<Longrightarrow> geocode_step config net s issued = (Inr s, issued)"
  "\<not> isCoordinate s \<Longrightarrow> answers_json net (length issued) (geocode_request config s) j \<Longrightarrow>
   geocode_step config net s issued = (Inr (forwarded j s), issued @ [geocode_request config s])"
  by (cases rule: geocode_step_cases [of s config net issued];
      auto dest: answers_json_unique)+

lemma request_json_failure:
  "json_failure net (length issued) (api_request config endpoint params) = Some m \<Longrightarrow>
   makeNaverAPIRequest config net endpoint params False issued =
     (Inl (Error m), issued @ [api_request config endpoint params])"
  by (auto simp: json_failure_def makeNaverAPIRequest_def transport_error_def
      split: fetch_result.splits sum.splits if_splits)

lemma geocode_step_failed:
  "\<not> isCoordinate s \<Longrightarrow> json_failure net (length issued) (geocode_request config s) = Some m \<Longrightarrow>
   geocode_step config net s issued = (Inl (Error m), issued @ [geocode_request config s])"
  by (simp add: geocode_step_def geocode_request_def and_then_Inl request_json_failure)

lemma request_queries:
  "req_path (geocode_request config s) = asc ''/map-geocode/v2/geocode''"
  "req_query (geocode_request config s) = [(asc ''query'', s)]"
  "req_path (directions_request config s g option waypoints) = asc ''/map-direction/v1/driving''"
  "req_query (directions_request config s g option waypoints) =
     [(asc ''start'', s), (asc ''goal'', g), (asc ''option'', option)] @
     (case waypoints of
        None \<Rightarrow> []
      | Some w \<Rightarrow> if w = [] then [] else [(asc ''waypoints'', w)])"
  by (simp_all add: geocode_request_def directions_request_def api_request_def searchParams_def
      directions_params_def geocode_endpoint_def directions_endpoint_def split: option.splits)

lemma stub_addresses: "\<not> isCoordinate (asc ''Seoul'')" "\<not> isCoordinate (asc ''Nowhere'')"
  by code_simp+

lemma stub_provider_geocode:
  "answers_json stub_provider i (geocode_request stub_config (asc ''Seoul'')) seoul"
  "answers_json stub_provider i (geocode_request stub_config (asc ''Nowhere'')) no_members"
  by (simp_all add: answers_json_def stub_provider_def geocode_request_def api_request_def
      searchParams_def json_response_def ok_def geocode_endpoint_def static_map_endpoint_def asc_def)

text \<open>
  C4. The two inputs are not treated independently: \<open>start\<close> is resolved first, and a
  geocode call for it that fails ends the handler. With a provider that answers the first
  request of the run \<open>403 Forbidden\<close>, the handler called with the addresses \<open>Seoul\<close> and
  \<open>Nowhere\<close> issues the geocode request for \<open>Seoul\<close> alone and returns the error text: no
  geocode call is made for \<open>Nowhere\<close>, which the classifier rejects, and nothing is
  forwarded to the directions endpoint.
\<close>

theorem failed_geocode_ends_directions:
  "\<not> isCoordinate (asc ''Nowhere'') \<and>
   naver_directions stub_config first_fails (asc ''Seoul'') (asc ''Nowhere'') (asc ''trafast'') None [] =
     (error_text (msg_api_error @ asc ''403 Forbidden''), [geocode_request stub_config (asc ''Seoul'')]) \<and>
   geocode_request stub_config (asc ''Nowhere'') \<notin>
     set (snd (naver_directions stub_config first_fails (asc ''Seoul'') (asc ''Nowhere'')
                 (asc ''trafast'') None []))"
proof -
  have "json_failure first_fails (length []) (geocode_request stub_config (asc ''Seoul'')) =
      Some (transport_error 403 (asc ''Forbidden''))"
    by (simp add: json_failure_def first_fails_def forbidden_def ok_def)
  from geocode_step_failed [OF stub_addresses(1) this]
  have "directions_try stub_config first_fails (asc ''Seoul'') (asc ''Nowhere'') (asc ''trafast'')
      None [] = (Inl (Error (transport_error 403 (asc ''Forbidden''))),
                 [geocode_request stub_config (asc ''Seoul'')])"
    by (simp add: directions_try_failed1)
  then have run: "naver_directions stub_config first_fails (asc ''Seoul'') (asc ''Nowhere'')
      (asc ''trafast'') None [] =
      (error_text (msg_api_error @ asc ''403 Forbidden''), [geocode_request stub_config (asc ''Seoul'')])"
    by (simp add: naver_directions_def try_catch_def error_text_def transport_error_def dec_403
        asc_def)
  have "geocode_request stub_config (asc ''Nowhere'') \<noteq> geocode_request stub_config (asc ''Seoul'')"
    by (simp add: geocode_request_def api_request_def searchParams_def asc_def)
  with run stub_addresses(2) show ?thesis
    by simp
qed

text \<open>
  C4, amended. The directions handler resolves \<open>start\<close> and then \<open>goal\<close>. For an input that
  the classifier accepts it issues no geocode request and forwards the string itself.
  For an input that it rejects it issues exactly one geocode request, whose query is the
  string; answered successfully, the input is replaced by \<open>"<lon>,<lat>"\<close> of the first
  candidate, or forwarded unchanged when the answer has no candidate. When the geocode
  calls made are answered successfully the directions request follows, with the two
  forwarded values as \<open>start\<close> and \<open>goal\<close>, the option, and the waypoints when they are
  given and not empty; with both inputs coordinates it is the only request. A geocode call
  that fails ends the handler with the text of its error: after a failed call for \<open>start\<close>
  no geocode request is issued for \<open>goal\<close>, and after either no directions request.
\<close>

theorem geocoding_before_directions:
  "((\<not> isCoordinate start \<longrightarrow>
       answers_json net (length issued) (geocode_request config start) j1) \<and>
    (\<not> isCoordinate goal \<longrightarrow>
       answers_json net (length issued + (if isCoordinate start then 0 else 1))
         (geocode_request config goal) j2) \<longrightarrow>
    snd (naver_directions config net start goal option waypoints issued) =
      issued @
      (if isCoordinate start then [] else [geocode_request config start]) @
      (if isCoordinate goal then [] else [geocode_request config goal]) @
      [directions_request config
         (if isCoordinate start then start else forwarded j1 start)
         (if isCoordinate goal then goal else forwarded j2 goal) option waypoints]) \<and>
   (\<not> isCoordinate start \<and>
    json_failure net (length issued) (geocode_request config start) = Some m \<longrightarrow>
      naver_directions config net start goal option waypoints issued =
        (error_text m, issued @ [geocode_request config start])) \<and>
   ((\<not> isCoordinate start \<longrightarrow>
       answers_json net (length issued) (geocode_request config start) j1) \<and>
    \<not> isCoordinate goal \<and>
    json_failure net (length issued + (if isCoordinate start then 0 else 1))
      (geocode_request config goal) = Some m \<longrightarrow>
      naver_directions config net start goal option waypoints issued =
        (error_text m,
         issued @ (if isCoordinate start then [] else [geocode_request config start]) @
         [geocode_request config goal])) \<and>
   (candidates j = [] \<longrightarrow> forwarded j s = s) \<and>
   (candidates j = a # as \<longrightarrow> forwarded j s = template (addr_x a) @ asc '','' @ template (addr_y a)) \<and>
   req_path (geocode_request config s) = asc ''/map-geocode/v2/geocode'' \<and>
   req_query (geocode_request config s) = [(asc ''query'', s)] \<and>
   req_path (directions_request config s g option waypoints) = asc ''/map-direction/v1/driving'' \<and>
   req_query (directions_request config s g option waypoints) =
     [(asc ''start'', s), (asc ''goal'', g), (asc ''option'', option)] @
     (case waypoints of
        None \<Rightarrow> []
      | Some w \<Rightarrow> if w = [] then [] else [(asc ''waypoints'', w)])"
proof (intro conjI impI)
  assume answered: "(\<not> isCoordinate start \<longrightarrow>
      answers_json net (length issued) (geocode_request config start) j1) \<and>
    (\<not> isCoordinate goal \<longrightarrow>
      answers_json net (length issued + (if isCoordinate start then 0 else 1))
        (geocode_request config goal) j2)"
  let ?s = "if isCoordinate start then start else forwarded j1 start"
  let ?g = "if isCoordinate goal then goal else forwarded j2 goal"
  let ?issued1 = "issued @ (if isCoordinate start then [] else [geocode_request config start])"
  let ?issued2 = "?issued1 @ (if isCoordinate goal then [] else [geocode_request config goal])"
  have step1: "geocode_step config net start issued = (Inr ?s, ?issued1)"
    using answered by (simp add: geocode_step_answered)
  have "length ?issued1 = length issued + (if isCoordinate start then 0 else 1)"
    by simp
  then have step2: "geocode_step config net goal ?issued1 = (Inr ?g, ?issued2)"
    using answered
      geocode_step_answered [where s = goal and config = config and net = net and issued = ?issued1]
    by auto
  have "snd (naver_directions config net start goal option waypoints issued) =
      ?issued2 @ [directions_request config ?s ?g option waypoints]"
    unfolding naver_directions_def snd_try_catch directions_try_call [OF step1 step2]
    by (rule snd_directions_call)
  then show "snd (naver_directions config net start goal option waypoints issued) =
      issued @
      (if isCoordinate start then [] else [geocode_request config start]) @
      (if isCoordinate goal then [] else [geocode_request config goal]) @
      [directions_request config ?s ?g option waypoints]"
    by simp
next
  assume "\<not> isCoordinate start \<and>
    json_failure net (length issued) (geocode_request config start) = Some m"
  then have "geocode_step config net start issued =
      (Inl (Error m), issued @ [geocode_request config start])"
    by (simp add: geocode_step_failed)
  then show "naver_directions config net start goal option waypoints issued =
      (error_text m, issued @ [geocode_request config start])"
    by (simp add: naver_directions_def directions_try_failed1 try_catch_def error_text_def)
next
  assume failed: "(\<not> isCoordinate start \<longrightarrow>
      answers_json net (length issued) (geocode_request config start) j1) \<and>
    \<not> isCoordinate goal \<and>
    json_failure net (length issued + (if isCoordinate start then 0 else 1))
      (geocode_request config goal) = Some m"
  let ?s = "if isCoordinate start then start else forwarded j1 start"
  let ?issued1 = "issued @ (if isCoordinate start then [] else [geocode_request config start])"
  have step1: "geocode_step config net start issued = (Inr ?s, ?issued1)"
    using failed by (simp add: geocode_step_answered)
  have "length ?issued1 = length issued + (if isCoordinate start then 0 else 1)"
    by simp
  then have step2: "geocode_step config net goal ?issued1 =
      (Inl (Error m), ?issued1 @ [geocode_request config goal])"
    using failed
      geocode_step_failed [where s = goal and config = config and net = net and issued = ?issued1]
    by auto
  from directions_try_failed2 [OF step1 step2]
  show "naver_directions config net start goal option waypoints issued =
      (error_text m,
       issued @ (if isCoordinate start then [] else [geocode_request config start]) @
       [geocode_request config goal])"
    by (simp add: naver_directions_def try_catch_def error_text_def)
next
  assume "candidates j = []"
  then show "forwarded j s = s"
    by (simp add: forwarded_def)
next
  assume "candidates j = a # as"
  then show "forwarded j s = template (addr_x a) @ asc '','' @ template (addr_y a)"
    by (simp add: forwarded_def lon_lat_def)
qed (rule request_queries)+

theorem geocoding_before_directions_witness:
  "snd (naver_directions stub_config stub_provider (asc ''Seoul'') (asc ''Nowhere'')
          (asc ''trafast'') None []) =
     [geocode_request stub_config (asc ''Seoul''), geocode_request stub_config (asc ''Nowhere''),
      directions_request stub_config (asc ''126.978,37.5665'') (asc ''Nowhere'') (asc ''trafast'') None] \<and>
   req_query (directions_request stub_config (asc ''126.978,37.5665'') (asc ''Nowhere'')
                (asc ''trafast'') None) =
     [(asc ''start'', asc ''126.978,37.5665''), (asc ''goal'', asc ''Nowhere''),
      (asc ''option'', asc ''trafast'')] \<and>
   snd (naver_directions stub_config stub_provider (asc ''127.0,37.5'') (asc ''129.0,35.1'')
          (asc ''trafast'') None []) =
     [directions_request stub_config (asc ''127.0,37.5'') (asc ''129.0,35.1'') (asc ''trafast'') None] \<and>
   naver_directions stub_config (\<lambda>i req. Resolved forbidden) (asc ''Seoul'') (asc ''Nowhere'')
     (asc ''trafast'') None [] =
     (error_text (transport_error 403 (asc ''Forbidden'')),
      [geocode_request stub_config (asc ''Seoul'')]) \<and>
   naver_directions stub_config (\<lambda>i req. Resolved forbidden) (asc ''127.0,37.5'') (asc ''Nowhere'')
     (asc ''trafast'') None [] =
     (error_text (transport_error 403 (asc ''Forbidden'')),
      [geocode_request stub_config (asc ''Nowhere'')])"
proof -
  let ?down = "\<lambda>(i::nat) (req::request). Resolved forbidden"
  have found: "candidates seoul =
      [\<lparr>addr_x = Some (JStr (asc ''126.978'')), addr_y = Some (JStr (asc ''37.5665'')),
        addr_roadAddress = Some (JStr (asc ''Sejong-daero'')), addr_jibunAddress = None\<rparr>]"
    and none: "candidates no_members = []"
    by (simp_all add: candidates_def seoul_def no_members_def)
  have down: "json_failure ?down i req = Some (transport_error 403 (asc ''Forbidden''))" for i req
    by (simp add: json_failure_def forbidden_def ok_def)
  have "forwarded seoul (asc ''Seoul'') = asc ''126.978,37.5665''"
    using geocoding_before_directions [where j = seoul and s = "asc ''Seoul''"] found
    by (simp add: template_def asc_def)
  moreover have "forwarded no_members (asc ''Nowhere'') = asc ''Nowhere''"
    using geocoding_before_directions [where j = no_members and s = "asc ''Nowhere''"] none
    by simp
  moreover have "snd (naver_directions stub_config stub_provider (asc ''Seoul'') (asc ''Nowhere'')
        (asc ''trafast'') None []) =
      [geocode_request stub_config (asc ''Seoul''), geocode_request stub_config (asc ''Nowhere''),
       directions_request stub_config (forwarded seoul (asc ''Seoul''))
         (forwarded no_members (asc ''Nowhere'')) (asc ''trafast'') None]"
    using geocoding_before_directions [where start = "asc ''Seoul''" and net = stub_provider
        and issued = "[]" and config = stub_config and ?j1.0 = seoul and goal = "asc ''Nowhere''"
        and ?j2.0 = no_members and option = "asc ''trafast''" and waypoints = None]
      stub_addresses stub_provider_geocode
    by simp
  moreover have "req_query (directions_request stub_config (asc ''126.978,37.5665'') (asc ''Nowhere'')
                (asc ''trafast'') None) =
     [(asc ''start'', asc ''126.978,37.5665''), (asc ''goal'', asc ''Nowhere''),
      (asc ''option'', asc ''trafast'')]"
    using geocoding_before_directions [where config = stub_config and s = "asc ''126.978,37.5665''"
        and g = "asc ''Nowhere''" and option = "asc ''trafast''" and waypoints = None]
    by simp
  moreover have "snd (naver_directions stub_config stub_provider (asc ''127.0,37.5'')
        (asc ''129.0,35.1'') (asc ''trafast'') None []) =
      [directions_request stub_config (asc ''127.0,37.5'') (asc ''129.0,35.1'') (asc ''trafast'') None]"
    using geocoding_before_directions [where start = "asc ''127.0,37.5''" and net = stub_provider
        and issued = "[]" and config = stub_config and ?j1.0 = seoul and goal = "asc ''129.0,35.1''"
        and ?j2.0 = seoul and option = "asc ''trafast''" and waypoints = None]
      stub_coordinates
    by simp
  moreover have "naver_directions stub_config ?down (asc ''Seoul'') (asc ''Nowhere'')
      (asc ''trafast'') None [] =
      (error_text (transport_error 403 (asc ''Forbidden'')),
       [geocode_request stub_config (asc ''Seoul'')])"
    using geocoding_before_directions [where start = "asc ''Seoul''" and net = ?down
        and issued = "[]" and config = stub_config and goal = "asc ''Nowhere''"
        and m = "transport_error 403 (asc ''Forbidden'')"
        and option = "asc ''trafast''" and waypoints = None]
      stub_addresses down
    by simp
  moreover have "naver_directions stub_config ?down (asc ''127.0,37.5'') (asc ''Nowhere'')
      (asc ''trafast'') None [] =
      (error_text (transport_error 403 (asc ''Forbidden'')),
       [geocode_request stub_config (asc ''Nowhere'')])"
    using geocoding_before_directions [where start = "asc ''127.0,37.5''" and net = ?down
        and issued = "[]" and config = stub_config and goal = "asc ''Nowhere''"
        and m = "transport_error 403 (asc ''Forbidden'')"
        and option = "asc ''trafast''" and waypoints = None]
      stub_addresses stub_coordinates down
    by simp
  ultimately show ?thesis
    by simp
qed

subsection \<open>The static map\<close>

lemma request_bytes_cases:
  obtains (bytes) bs where
      "answers_bytes net (length issued) (api_request config endpoint params) bs"
      "makeNaverAPIRequest config net endpoint params True issued =
         (Inr (Binary bs), issued @ [api_request config endpoint params])"
  | (error) err where
      "\<forall>bs. \<not> answers_bytes net (length issued) (api_request config endpoint params) bs"
      "makeNaverAPIRequest config net endpoint params True issued =
         (Inl err, issued @ [api_request config endpoint params])"
proof (cases "net (length issued) (api_request config endpoint params)")
  case (Rejected m)
  then show ?thesis
    using error [of "Error m"] by (simp add: answers_bytes_def request_rejected)
next
  case (Resolved r)
  show ?thesis
  proof (cases "ok r")
    case False
    with Resolved show ?thesis
      using error by (simp add: answers_bytes_def request_not_ok)
  next
    case True
    with Resolved show ?thesis
      using bytes [of "body_bytes r"] by (simp add: answers_bytes_def request_binary)
  qed
qed

text \<open>The second half of the handler: the request for the image with the centre \<open>c\<close>.\<close>

lemma static_map_fetch_cases:
  obtains (image) bs where
      "answers_bytes net (length issued) (static_map_request config c level w h format) bs"
      "and_then
         (makeNaverAPIRequest config net static_map_endpoint
            (static_map_params c level w h format) True)
         (\<lambda>buffer.
            case buffer of
              Binary bs \<Rightarrow> succeed (static_map_result c level w h format bs)
            | Json j \<Rightarrow> throw (Error [])) issued =
       (Inr (static_map_result c level w h format bs),
        issued @ [static_map_request config c level w h format])"
  | (error) err where
      "and_then
         (makeNaverAPIRequest config net static_map_endpoint
            (static_map_params c level w h format) True)
         (\<lambda>buffer.
            case buffer of
              Binary bs \<Rightarrow> succeed (static_map_result c level w h format bs)
            | Json j \<Rightarrow> throw (Error [])) issued =
       (Inl err, issued @ [static_map_request config c level w h format])"
proof (cases rule: request_bytes_cases [of net issued config static_map_endpoint
      "static_map_params c level w h format"])
  case (bytes bs)
  then show ?thesis
    using image [of bs] by (simp add: static_map_request_def and_then_def succeed_def)
next
  case (error err)
  then show ?thesis
    using that(2) [of err] by (simp add: static_map_request_def and_then_def)
qed

lemma answers_bytes_unique:
  "answers_bytes net i req bs \<Longrightarrow> answers_bytes net i req bs' \<Longrightarrow> bs = bs'"
  by (auto simp: answers_bytes_def split: fetch_result.splits)

lemma static_map_fetch_answered:
  assumes "answers_bytes net (length issued) (static_map_request config c level w h format) bs"
  shows "and_then
      (makeNaverAPIRequest config net static_map_endpoint
         (static_map_params c level w h format) True)
      (\<lambda>buffer.
         case buffer of
           Binary bs \<Rightarrow> succeed (static_map_result c level w h format bs)
         | Json j \<Rightarrow> throw (Error [])) issued =
    (Inr (static_map_result c level w h format bs),
     issued @ [static_map_request config c level w h format])"
proof -
  from assms have "makeNaverAPIRequest config net static_map_endpoint
      (static_map_params c level w h format) True issued =
      (Inr (Binary bs), issued @ [static_map_request config c level w h format])"
    unfolding static_map_request_def by (rule request_answers_bytes)
  then show ?thesis
    by (simp add: and_then_def succeed_def)
qed

lemma static_map_of_coordinate:
  assumes "isCoordinate center"
  shows "static_map_try config net center level w h format issued =
    and_then
      (makeNaverAPIRequest config net static_map_endpoint
         (static_map_params center level w h format) True)
      (\<lambda>buffer.
         case buffer of
           Binary bs \<Rightarrow> succeed (static_map_result center level w h format bs)
         | Json j \<Rightarrow> throw (Error [])) issued"
  using assms by (simp add: static_map_try_def and_then_succeed)

lemma static_map_of_address:
  assumes "\<not> isCoordinate center"
    and "answers_json net (length issued) (geocode_request config center) j"
  shows "candidates j = [] \<Longrightarrow>
      static_map_try config net center level w h format issued =
        (Inl (Error msg_no_geocoding_result), issued @ [geocode_request config center])"
    and "candidates j = a # as \<Longrightarrow>
      static_map_try config net center level w h format issued =
        and_then
          (makeNaverAPIRequest config net static_map_endpoint
             (static_map_params (lon_lat a) level w h format) True)
          (\<lambda>buffer.
             case buffer of
               Binary bs \<Rightarrow> succeed (static_map_result (lon_lat a) level w h format bs)
             | Json j \<Rightarrow> throw (Error [])) (issued @ [geocode_request config center])"
proof -
  from assms(2) have geo: "makeNaverAPIRequest config net geocode_endpoint
      [(asc ''query'', Some (JStr center))] False issued =
      (Inr (Json j), issued @ [geocode_request config center])"
    unfolding geocode_request_def by (rule request_answers_json)
  show "static_map_try config net center level w h format issued =
      (Inl (Error msg_no_geocoding_result), issued @ [geocode_request config center])"
    if "candidates j = []"
    using that assms(1) geo
    by (auto simp: static_map_try_def and_then_def throw_def candidates_def addresses_of_def
        first_of_def split: option.splits list.splits)
  show "static_map_try config net center level w h format issued =
      and_then
        (makeNaverAPIRequest config net static_map_endpoint
           (static_map_params (lon_lat a) level w h format) True)
        (\<lambda>buffer.
           case buffer of
             Binary bs \<Rightarrow> succeed (static_map_result (lon_lat a) level w h format bs)
           | Json j \<Rightarrow> throw (Error [])) (issued @ [geocode_request config center])"
    if "candidates j = a # as"
  proof -
    from that have "first_of (addresses_of (Json j)) = Some a"
      by (auto simp: candidates_def addresses_of_def first_of_def split: option.splits)
    then have "and_then
        (makeNaverAPIRequest config net geocode_endpoint
           [(asc ''query'', Some (JStr center))] False)
        (\<lambda>geo.
           case first_of (addresses_of geo) of
             None \<Rightarrow> throw (Error msg_no_geocoding_result)
           | Some a \<Rightarrow> succeed (template (addr_x a) @ asc '','' @ template (addr_y a))) issued =
        (Inr (lon_lat a), issued @ [geocode_request config center])"
      using geo by (simp add: and_then_def succeed_def lon_lat_def)
    then show ?thesis
      using assms(1) by (simp add: static_map_try_def and_then_Inr)
  qed
qed

text \<open>
  C8. The static-map handler does not leave the centre unchanged when the geocode call
  returns no candidate: for the centre \<open>Nowhere\<close>, which the classifier rejects and for
  which the provider has no candidate, it issues the geocode request alone and returns the
  error text of "no geocoding result"; the request for the image with the centre
  \<open>Nowhere\<close> is never issued.
\<close>

theorem static_map_unknown_address:
  "\<not> isCoordinate (asc ''Nowhere'') \<and>
   answers_json stub_provider 0 (geocode_request stub_config (asc ''Nowhere'')) no_members \<and>
   candidates no_members = [] \<and>
   naver_static_map stub_config stub_provider (asc ''Nowhere'') (Finite 6) (Finite 400) (Finite 400)
     (asc ''png'') [] =
     (error_text msg_no_geocoding_result, [geocode_request stub_config (asc ''Nowhere'')]) \<and>
   static_map_request stub_config (asc ''Nowhere'') (Finite 6) (Finite 400) (Finite 400) (asc ''png'')
     \<notin> set (snd (naver_static_map stub_config stub_provider (asc ''Nowhere'') (Finite 6) (Finite 400)
                   (Finite 400) (asc ''png'') []))"
proof -
  have none: "candidates no_members = []"
    by (simp add: candidates_def no_members_def)
  have answer: "answers_json stub_provider (length []) (geocode_request stub_config (asc ''Nowhere''))
      no_members"
    by (rule stub_provider_geocode)
  have run: "naver_static_map stub_config stub_provider (asc ''Nowhere'') (Finite 6) (Finite 400)
      (Finite 400) (asc ''png'') [] =
      (error_text msg_no_geocoding_result, [geocode_request stub_config (asc ''Nowhere'')])"
    using static_map_of_address(1) [OF stub_addresses(2) answer none]
    by (simp add: naver_static_map_def try_catch_def error_text_def)
  have "static_map_request stub_config (asc ''Nowhere'') (Finite 6) (Finite 400) (Finite 400)
      (asc ''png'') \<noteq> geocode_request stub_config (asc ''Nowhere'')"
    by (simp add: static_map_request_def geocode_request_def api_request_def
        static_map_endpoint_def geocode_endpoint_def asc_def)
  with run none answer stub_addresses(2) show ?thesis
    by simp
qed

text \<open>
  C8, amended. The static-map handler issues no geocode request for a centre that the
  classifier accepts; for a centre that it rejects it issues one, takes \<open>"<lon>,<lat>"\<close> of
  the first candidate as the centre, and, when the answer has no candidate, ends with the
  error text of "no geocoding result" without requesting an image. The image is requested
  from the static-map endpoint as bytes, and the result is the image item whose data URI
  holds the base64 text of the bytes, with a text item that names the centre, the level
  and the size.
\<close>

theorem static_map_center_resolved:
  "(isCoordinate center \<and>
    answers_bytes net (length issued) (static_map_request config center level w h format) bs \<longrightarrow>
      naver_static_map config net center level w h format issued =
        (static_map_result center level w h format bs,
         issued @ [static_map_request config center level w h format])) \<and>
   (\<not> isCoordinate center \<and>
    answers_json net (length issued) (geocode_request config center) j \<and> candidates j = a # as \<and>
    answers_bytes net (length issued + 1)
      (static_map_request config (lon_lat a) level w h format) bs \<longrightarrow>
      naver_static_map config net center level w h format issued =
        (static_map_result (lon_lat a) level w h format bs,
         issued @ [geocode_request config center,
                   static_map_request config (lon_lat a) level w h format])) \<and>
   (\<not> isCoordinate center \<and>
    answers_json net (length issued) (geocode_request config center) j \<and> candidates j = [] \<longrightarrow>
      naver_static_map config net center level w h format issued =
        (error_text msg_no_geocoding_result, issued @ [geocode_request config center])) \<and>
   static_map_result c level w h format bs =
     [ImageItem (asc ''data:image/'' @ format @ asc '';base64,'' @ base64 bs),
      TextItem (label_static_map @ c @ asc '', level: '' @ Number_toString level @
                asc '', size: '' @ Number_toString w @ asc ''x'' @ Number_toString h @ asc '')'')] \<and>
   lon_lat a = template (addr_x a) @ asc '','' @ template (addr_y a)"
proof (intro conjI impI)
  assume "isCoordinate center \<and>
    answers_bytes net (length issued) (static_map_request config center level w h format) bs"
  then show "naver_static_map config net center level w h format issued =
      (static_map_result center level w h format bs,
       issued @ [static_map_request config center level w h format])"
    by (simp add: naver_static_map_def static_map_of_coordinate static_map_fetch_answered
        try_catch_Inr)
next
  assume a: "\<not> isCoordinate center \<and>
    answers_json net (length issued) (geocode_request config center) j \<and> candidates j = a # as \<and>
    answers_bytes net (length issued + 1)
      (static_map_request config (lon_lat a) level w h format) bs"
  then have "answers_bytes net (length (issued @ [geocode_request config center]))
      (static_map_request config (lon_lat a) level w h format) bs"
    by simp
  from static_map_fetch_answered [OF this] a
  have "static_map_try config net center level w h format issued =
      (Inr (static_map_result (lon_lat a) level w h format bs),
       issued @ [geocode_request config center,
                 static_map_request config (lon_lat a) level w h format])"
    using static_map_of_address(2) [of center net issued config j a as level w h format]
    by simp
  then show "naver_static_map config net center level w h format issued =
      (static_map_result (lon_lat a) level w h format bs,
       issued @ [geocode_request config center,
                 static_map_request config (lon_lat a) level w h format])"
    by (simp add: naver_static_map_def try_catch_Inr)
next
  assume "\<not> isCoordinate center \<and>
    answers_json net (length issued) (geocode_request config center) j \<and> candidates j = []"
  then have "static_map_try config net center level w h format issued =
      (Inl (Error msg_no_geocoding_result), issued @ [geocode_request config center])"
    using static_map_of_address(1) [of center net issued config j level w h format]
    by simp
  then show "naver_static_map config net center level w h format issued =
      (error_text msg_no_geocoding_result, issued @ [geocode_request config center])"
    by (simp add: naver_static_map_def try_catch_def error_text_def)
next
  show "static_map_result c level w h format bs =
      [ImageItem (asc ''data:image/'' @ format @ asc '';base64,'' @ base64 bs),
       TextItem (label_static_map @ c @ asc '', level: '' @ Number_toString level @
                 asc '', size: '' @ Number_toString w @ asc ''x'' @ Number_toString h @ asc '')'')]"
    by (simp add: static_map_result_def dataUri_def)
  show "lon_lat a = template (addr_x a) @ asc '','' @ template (addr_y a)"
    by (simp add: lon_lat_def)
qed

lemma stub_provider_image:
  "answers_bytes stub_provider i (static_map_request stub_config c level w h format)
     [137, 80, 78, 71]"
  by (simp add: answers_bytes_def stub_provider_def static_map_request_def api_request_def
      bytes_response_def ok_def)

lemma stub_image: "base64 [137, 80, 78, 71] = asc ''iVBORw==''"
  by code_simp

lemma stub_sizes: "Number_toString (Finite 6) = asc ''6''" "Number_toString (Finite 400) = asc ''400''"
  by code_simp+

theorem static_map_center_resolved_witness:
  "naver_static_map stub_config stub_provider (asc ''Seoul'') (Finite 6) (Finite 400) (Finite 400)
     (asc ''png'') [] =
     ([ImageItem (asc ''data:image/png;base64,iVBORw==''),
       TextItem (label_static_map @ asc ''126.978,37.5665, level: 6, size: 400x400)'')],
      [geocode_request stub_config (asc ''Seoul''),
       static_map_request stub_config (asc ''126.978,37.5665'') (Finite 6) (Finite 400) (Finite 400)
         (asc ''png'')]) \<and>
   naver_static_map stub_config stub_provider (asc ''127.0,37.5'') (Finite 6) (Finite 400)
     (Finite 400) (asc ''png'') [] =
     ([ImageItem (asc ''data:image/png;base64,iVBORw==''),
       TextItem (label_static_map @ asc ''127.0,37.5, level: 6, size: 400x400)'')],
      [static_map_request stub_config (asc ''127.0,37.5'') (Finite 6) (Finite 400) (Finite 400)
         (asc ''png'')]) \<and>
   naver_static_map stub_config stub_provider (asc ''Nowhere'') (Finite 6) (Finite 400)
     (Finite 400) (asc ''png'') [] =
     (error_text msg_no_geocoding_result, [geocode_request stub_config (asc ''Nowhere'')])"
proof -
  let ?a = "\<lparr>addr_x = Some (JStr (asc ''126.978'')), addr_y = Some (JStr (asc ''37.5665'')),
      addr_roadAddress = Some (JStr (asc ''Sejong-daero'')), addr_jibunAddress = None\<rparr>"
  have found: "candidates seoul = [?a]" and none: "candidates no_members = []"
    by (simp_all add: candidates_def seoul_def no_members_def)
  note facts = static_map_center_resolved [where net = stub_provider and config = stub_config
      and issued = "[]" and level = "Finite 6" and w = "Finite 400" and h = "Finite 400"
      and format = "asc ''png''" and bs = "[137, 80, 78, 71]" and a = ?a and as = "[]"]
  have centre: "lon_lat ?a = asc ''126.978,37.5665''"
    using facts [where center = "asc ''Seoul''" and j = seoul and c = "asc ''Seoul''"]
    by (simp add: template_def asc_def)
  have "static_map_result c (Finite 6) (Finite 400) (Finite 400) (asc ''png'') [137, 80, 78, 71] =
      [ImageItem (asc ''data:image/'' @ asc ''png'' @ asc '';base64,'' @ base64 [137, 80, 78, 71]),
       TextItem (label_static_map @ c @ asc '', level: '' @ Number_toString (Finite 6) @
                 asc '', size: '' @ Number_toString (Finite 400) @ asc ''x'' @
                 Number_toString (Finite 400) @ asc '')'')]" for c
    using facts [where center = "asc ''Seoul''" and j = seoul and c = c,
        THEN conjunct2, THEN conjunct2, THEN conjunct2, THEN conjunct1] .
  then have shape: "static_map_result c (Finite 6) (Finite 400) (Finite 400) (asc ''png'')
      [137, 80, 78, 71] =
      [ImageItem (asc ''data:image/png;base64,iVBORw==''),
       TextItem (label_static_map @ c @ asc '', level: 6, size: 400x400)'')]" for c
    unfolding stub_image stub_sizes by (simp add: asc_def)
  have "naver_static_map stub_config stub_provider (asc ''Seoul'') (Finite 6) (Finite 400)
      (Finite 400) (asc ''png'') [] =
      (static_map_result (lon_lat ?a) (Finite 6) (Finite 400) (Finite 400) (asc ''png'')
         [137, 80, 78, 71],
       [geocode_request stub_config (asc ''Seoul''),
        static_map_request stub_config (lon_lat ?a) (Finite 6) (Finite 400) (Finite 400)
          (asc ''png'')])"
    using facts [where center = "asc ''Seoul''" and j = seoul and c = "asc ''Seoul''"]
      stub_addresses(1) stub_provider_geocode(1) found stub_provider_image
    by simp
  moreover have "naver_static_map stub_config stub_provider (asc ''127.0,37.5'') (Finite 6)
      (Finite 400) (Finite 400) (asc ''png'') [] =
      (static_map_result (asc ''127.0,37.5'') (Finite 6) (Finite 400) (Finite 400) (asc ''png'')
         [137, 80, 78, 71],
       [static_map_request stub_config (asc ''127.0,37.5'') (Finite 6) (Finite 400) (Finite 400)
          (asc ''png'')])"
    using facts [where center = "asc ''127.0,37.5''" and j = seoul and c = "asc ''Seoul''"]
      stub_coordinates(1) stub_provider_image
    by simp
  moreover have "naver_static_map stub_config stub_provider (asc ''Nowhere'') (Finite 6)
      (Finite 400) (Finite 400) (asc ''png'') [] =
      (error_text msg_no_geocoding_result, [geocode_request stub_config (asc ''Nowhere'')])"
    using facts [where center = "asc ''Nowhere''" and j = no_members and c = "asc ''Seoul''"]
      stub_addresses(2) stub_provider_geocode(2) none
    by simp
  ultimately show ?thesis
    unfolding centre shape by (simp add: asc_def)
qed

subsection \<open>The image of a static map\<close>

lemma static_map_try_failed:
  assumes "\<not> isCoordinate center"
    and "makeNaverAPIRequest config net geocode_endpoint
      [(asc ''query'', Some (JStr center))] False issued = (Inl err, issued1)"
  shows "static_map_try config net center level w h format issued = (Inl err, issued1)"
  using assms by (simp add: static_map_try_def and_then_def)

lemma image_result:
  assumes "static_map_try config net center level w h format issued =
      and_then
        (makeNaverAPIRequest config net static_map_endpoint
           (static_map_params c level w h format) True)
        (\<lambda>buffer.
           case buffer of
             Binary bs \<Rightarrow> succeed (static_map_result c level w h format bs)
           | Json j \<Rightarrow> throw (Error [])) issued1"
    and "naver_static_map config net center level w h format issued =
      ([ImageItem uri, TextItem caption], issued')"
  shows "\<exists>bs. answers_bytes net (length issued' - 1) (last issued') bs \<and> uri = dataUri format bs"
proof (cases rule: static_map_fetch_cases [of net issued1 config c level w h format])
  case (image bs)
  with assms have "issued' = issued1 @ [static_map_request config c level w h format]"
    and "uri = dataUri format bs"
    by (simp_all add: naver_static_map_def try_catch_def static_map_result_def)
  with image(1) show ?thesis
    by auto
next
  case (error err)
  with assms show ?thesis
    by (simp add: naver_static_map_def try_catch_def)
qed

lemma static_map_image:
  assumes run: "naver_static_map config net center level w h format issued =
      ([ImageItem uri, TextItem caption], issued')"
  shows "\<exists>bs. answers_bytes net (length issued' - 1) (last issued') bs \<and> uri = dataUri format bs"
proof (cases "isCoordinate center")
  case True
  from image_result [OF static_map_of_coordinate [OF True] run] show ?thesis .
next
  case False
  show ?thesis
  proof (cases rule: request_cases [of net issued config geocode_endpoint
        "[(asc ''query'', Some (JStr center))]"])
    case (error err)
    from static_map_try_failed [OF False error(2)] run show ?thesis
      by (simp add: naver_static_map_def try_catch_def)
  next
    case (json j)
    then have answer: "answers_json net (length issued) (geocode_request config center) j"
      by (simp add: geocode_request_def)
    show ?thesis
    proof (cases "candidates j")
      case Nil
      from static_map_of_address(1) [OF False answer Nil] run show ?thesis
        by (simp add: naver_static_map_def try_catch_def)
    next
      case (Cons a as)
      from image_result [OF static_map_of_address(2) [OF False answer Cons] run] show ?thesis .
    qed
  qed
qed

lemma image_bytes_dataUri: "image_bytes format (dataUri format bs) = Some bs"
  by (simp add: image_bytes_def dataUri_def base64_decode_base64)

text \<open>
  C9. Decoding the base64 text of a byte buffer gives the buffer back. In particular,
  whenever the static-map handler returns an image, the last request of the run was
  answered with a byte buffer, and the text after the prefix of the image's data URI
  decodes to exactly that buffer.
\<close>

theorem static_map_image_round_trip:
  "base64_decode (base64 bs) = Some bs \<and>
   (naver_static_map config net center level w h format issued =
      ([ImageItem uri, TextItem caption], issued') \<longrightarrow>
      (\<exists>buffer. answers_bytes net (length issued' - 1) (last issued') buffer \<and>
         image_bytes format uri = Some buffer))"
  using static_map_image [of config net center level w h format issued uri caption issued']
  by (auto simp: base64_decode_base64 image_bytes_dataUri)

theorem static_map_image_round_trip_witness:
  "naver_static_map stub_config stub_provider (asc ''127.0,37.5'') (Finite 6) (Finite 400)
     (Finite 400) (asc ''png'') [] =
     ([ImageItem (asc ''data:image/png;base64,iVBORw==''),
       TextItem (label_static_map @ asc ''127.0,37.5, level: 6, size: 400x400)'')],
      [static_map_request stub_config (asc ''127.0,37.5'') (Finite 6) (Finite 400) (Finite 400)
         (asc ''png'')]) \<and>
   answers_bytes stub_provider 0
     (static_map_request stub_config (asc ''127.0,37.5'') (Finite 6) (Finite 400) (Finite 400)
        (asc ''png'')) [137, 80, 78, 71] \<and>
   image_bytes (asc ''png'') (asc ''data:image/png;base64,iVBORw=='') = Some [137, 80, 78, 71]"
proof -
  let ?req = "static_map_request stub_config (asc ''127.0,37.5'') (Finite 6) (Finite 400)
      (Finite 400) (asc ''png'')"
  have fetch: "and_then
      (makeNaverAPIRequest stub_config stub_provider static_map_endpoint
         (static_map_params (asc ''127.0,37.5'') (Finite 6) (Finite 400) (Finite 400) (asc ''png''))
         True)
      (\<lambda>buffer.
         case buffer of
           Binary bs \<Rightarrow>
             succeed (static_map_result (asc ''127.0,37.5'') (Finite 6) (Finite 400) (Finite 400)
                        (asc ''png'') bs)
         | Json j \<Rightarrow> throw (Error [])) [] =
      (Inr (static_map_result (asc ''127.0,37.5'') (Finite 6) (Finite 400) (Finite 400) (asc ''png'')
              [137, 80, 78, 71]), [] @ [?req])"
    by (rule static_map_fetch_answered) (rule stub_provider_image)
  have "static_map_result (asc ''127.0,37.5'') (Finite 6) (Finite 400) (Finite 400) (asc ''png'')
      [137, 80, 78, 71] =
      [ImageItem (asc ''data:image/png;base64,iVBORw==''),
       TextItem (label_static_map @ asc ''127.0,37.5, level: 6, size: 400x400)'')]"
    unfolding static_map_result_def dataUri_def stub_image stub_sizes by (simp add: asc_def)
  with fetch have run: "naver_static_map stub_config stub_provider (asc ''127.0,37.5'') (Finite 6)
      (Finite 400) (Finite 400) (asc ''png'') [] =
      ([ImageItem (asc ''data:image/png;base64,iVBORw==''),
        TextItem (label_static_map @ asc ''127.0,37.5, level: 6, size: 400x400)'')], [?req])"
    by (simp add: naver_static_map_def static_map_of_coordinate [OF stub_coordinates(1)]
        try_catch_def)
  from static_map_image_round_trip [THEN conjunct2, rule_format, OF run]
  obtain buffer where "answers_bytes stub_provider 0 ?req buffer"
    and decoded: "image_bytes (asc ''png'') (asc ''data:image/png;base64,iVBORw=='') = Some buffer"
    by auto
  with stub_provider_image [of 0 "asc ''127.0,37.5''" "Finite 6" "Finite 400" "Finite 400" "asc ''png''"]
  have "buffer = [137, 80, 78, 71]"
    by (auto dest: answers_bytes_unique)
  with run decoded stub_provider_image show ?thesis
    by simp
qed

subsection \<open>Empty results\<close>

lemma not_found_is_no_error:
  "[TextItem msg_address_not_found] \<noteq> error_text m"
  "[TextItem msg_route_not_found] \<noteq> error_text m"
  "[TextItem msg_coordinate_not_found] \<noteq> error_text m"
  by (simp_all add: error_text_def msg_address_not_found_def msg_route_not_found_def
      msg_coordinate_not_found_def msg_error_prefix_def)

lemma geocode_result_empty: "candidates j = [] \<Longrightarrow> geocode_result (Json j) = [TextItem msg_address_not_found]"
  by (auto simp: geocode_result_def candidates_def addresses_of_def first_of_def
      split: option.splits list.splits)

lemma reverse_geocode_result_empty:
  "listed (results j) = [] \<Longrightarrow>
   reverse_geocode_result lat lng (Json j) = [TextItem msg_coordinate_not_found]"
  by (auto simp: reverse_geocode_result_def listed_def results_of_def first_of_def
      split: option.splits list.splits)

text \<open>
  C5. Not every provider call that succeeds with zero candidates ends in a not-found
  text. In the static-map handler the geocode call for the centre \<open>Nowhere\<close> succeeds with
  no candidate, and the \<open>try\<close> block throws: the handler's result is the text that the
  \<open>catch\<close> clause makes of the error, which is not the address-not-found text.
\<close>

theorem empty_geocode_thrown:
  "answers_json stub_provider 0 (geocode_request stub_config (asc ''Nowhere'')) no_members \<and>
   candidates no_members = [] \<and>
   static_map_try stub_config stub_provider (asc ''Nowhere'') (Finite 10) (Finite 640) (Finite 480)
     (asc ''jpeg'') [] =
     (Inl (Error msg_no_geocoding_result), [geocode_request stub_config (asc ''Nowhere'')]) \<and>
   naver_static_map stub_config stub_provider (asc ''Nowhere'') (Finite 10) (Finite 640) (Finite 480)
     (asc ''jpeg'') [] =
     ([TextItem (msg_error_prefix @ msg_no_geocoding_result)],
      [geocode_request stub_config (asc ''Nowhere'')]) \<and>
   [TextItem (msg_error_prefix @ msg_no_geocoding_result)] = error_text msg_no_geocoding_result \<and>
   [TextItem (msg_error_prefix @ msg_no_geocoding_result)] \<noteq> [TextItem msg_address_not_found]"
proof -
  have none: "candidates no_members = []"
    by (simp add: candidates_def no_members_def)
  have answer: "answers_json stub_provider (length []) (geocode_request stub_config (asc ''Nowhere''))
      no_members"
    by (rule stub_provider_geocode)
  have block: "static_map_try stub_config stub_provider (asc ''Nowhere'') (Finite 10) (Finite 640)
      (Finite 480) (asc ''jpeg'') [] =
      (Inl (Error msg_no_geocoding_result), [geocode_request stub_config (asc ''Nowhere'')])"
    using static_map_of_address(1) [OF stub_addresses(2) answer none] by simp
  then have "naver_static_map stub_config stub_provider (asc ''Nowhere'') (Finite 10) (Finite 640)
      (Finite 480) (asc ''jpeg'') [] =
      ([TextItem (msg_error_prefix @ msg_no_geocoding_result)],
       [geocode_request stub_config (asc ''Nowhere'')])"
    by (simp add: naver_static_map_def try_catch_def)
  moreover have "[TextItem (msg_error_prefix @ msg_no_geocoding_result)] \<noteq>
      [TextItem msg_address_not_found]"
    by (simp add: msg_error_prefix_def msg_no_geocoding_result_def msg_address_not_found_def)
  ultimately show ?thesis
    using none answer block by (simp add: error_text_def)
qed
text \<open>
  C5, amended. For the call whose answer the handler reports: when the geocode call of the
  geocode handler succeeds with no candidate, its \<open>try\<close> block returns the fixed
  address-not-found text, so that is the handler's result; when the directions call of
  the directions handler succeeds with no route in any of the four lists, its \<open>try\<close> block
  returns the fixed route-not-found text; and when the reverse-geocode call succeeds with
  no result, the \<open>try\<close> block of that handler returns its fixed not-found text. None is
  thrown, and none of the texts is one that the \<open>catch\<close> clause makes of an error.
\<close>

theorem empty_result_not_found:
  "(answers_json net (length issued) (geocode_request config address) j \<and> candidates j = [] \<longrightarrow>
      geocode_try config net address issued =
        (Inr [TextItem msg_address_not_found], issued @ [geocode_request config address]) \<and>
      naver_geocode config net address issued =
        ([TextItem msg_address_not_found], issued @ [geocode_request config address])) \<and>
   (directions_try config net start goal option waypoints issued1 = (outcome, issued') \<and>
    answers_json net (length issued' - 1) (last issued') j' \<and>
    first_nonempty (profile_lists j') = None \<longrightarrow>
      outcome = Inr [TextItem msg_route_not_found] \<and>
      naver_directions config net start goal option waypoints issued1 =
        ([TextItem msg_route_not_found], issued')) \<and>
   (answers_json net (length issued2)
      (reverse_geocode_request config (Number_toString lng @ asc '','' @ Number_toString lat)) j'' \<and>
    listed (results j'') = [] \<longrightarrow>
      reverse_geocode_try config net lat lng issued2 =
        (Inr [TextItem msg_coordinate_not_found],
         issued2 @ [reverse_geocode_request config
                      (Number_toString lng @ asc '','' @ Number_toString lat)]) \<and>
      naver_reverse_geocode config net lat lng issued2 =
        ([TextItem msg_coordinate_not_found],
         issued2 @ [reverse_geocode_request config
                      (Number_toString lng @ asc '','' @ Number_toString lat)])) \<and>
   [TextItem msg_address_not_found] \<noteq> error_text m \<and>
   [TextItem msg_route_not_found] \<noteq> error_text m \<and>
   [TextItem msg_coordinate_not_found] \<noteq> error_text m"
proof (intro conjI impI)
  assume "answers_json net (length issued) (geocode_request config address) j \<and> candidates j = []"
  then have "makeNaverAPIRequest config net geocode_endpoint
      [(asc ''query'', Some (JStr address))] False issued =
      (Inr (Json j), issued @ [geocode_request config address])"
    and empty: "candidates j = []"
    by (simp_all add: geocode_request_def request_answers_json)
  then show block: "geocode_try config net address issued =
      (Inr [TextItem msg_address_not_found], issued @ [geocode_request config address])"
    by (simp add: geocode_try_def and_then_def succeed_def geocode_result_empty)
  then show "naver_geocode config net address issued =
      ([TextItem msg_address_not_found], issued @ [geocode_request config address])"
    by (simp add: naver_geocode_def try_catch_def)
next
  assume run: "directions_try config net start goal option waypoints issued1 = (outcome, issued') \<and>
    answers_json net (length issued' - 1) (last issued') j' \<and>
    first_nonempty (profile_lists j') = None"
  then have "outcome = Inr (directions_result (Json j'))"
    using directions_try_json by blast
  with run show outcome: "outcome = Inr [TextItem msg_route_not_found]"
    by (simp add: directions_result_def best_route_first_nonempty)
  with run show "naver_directions config net start goal option waypoints issued1 =
      ([TextItem msg_route_not_found], issued')"
    by (simp add: naver_directions_def try_catch_def)
next
  let ?coords = "Number_toString lng @ asc '','' @ Number_toString lat"
  assume "answers_json net (length issued2) (reverse_geocode_request config ?coords) j'' \<and>
    listed (results j'') = []"
  then have "makeNaverAPIRequest config net reverse_geocode_endpoint
      [(asc ''coords'', Some (JStr ?coords)), (asc ''output'', Some (JStr (asc ''json'')))]
      False issued2 =
      (Inr (Json j''), issued2 @ [reverse_geocode_request config ?coords])"
    and "listed (results j'') = []"
    by (simp_all add: reverse_geocode_request_def request_answers_json)
  then show block: "reverse_geocode_try config net lat lng issued2 =
      (Inr [TextItem msg_coordinate_not_found],
       issued2 @ [reverse_geocode_request config ?coords])"
    by (simp add: reverse_geocode_try_def and_then_def succeed_def reverse_geocode_result_empty)
  then show "naver_reverse_geocode config net lat lng issued2 =
      ([TextItem msg_coordinate_not_found],
       issued2 @ [reverse_geocode_request config ?coords])"
    by (simp add: naver_reverse_geocode_def try_catch_def)
qed (rule not_found_is_no_error)+

theorem empty_result_not_found_witness:
  "naver_geocode stub_config (\<lambda>i req. Resolved (json_response no_members)) (asc ''Nowhere'') [] =
     ([TextItem msg_address_not_found], [geocode_request stub_config (asc ''Nowhere'')]) \<and>
   naver_directions stub_config (\<lambda>i req. Resolved (json_response no_members))
     (asc ''127.0,37.5'') (asc ''129.0,35.1'') (asc ''trafast'') None [] =
     ([TextItem msg_route_not_found],
      [directions_request stub_config (asc ''127.0,37.5'') (asc ''129.0,35.1'') (asc ''trafast'') None]) \<and>
   naver_reverse_geocode stub_config (\<lambda>i req. Resolved (json_response no_members))
     (Finite (75 / 2)) (Finite 127) [] =
     ([TextItem msg_coordinate_not_found],
      [reverse_geocode_request stub_config
         (Number_toString (Finite 127) @ asc '','' @ Number_toString (Finite (75 / 2)))])"
proof -
  let ?net = "\<lambda>(i::nat) (req::request). Resolved (json_response no_members)"
  let ?req = "directions_request stub_config (asc ''127.0,37.5'') (asc ''129.0,35.1'') (asc ''trafast'') None"
  have answer: "answers_json ?net i req no_members" for i req
    by (simp add: answers_json_def json_response_def ok_def)
  have empty: "candidates no_members = []" "first_nonempty (profile_lists no_members) = None"
    "listed (results no_members) = []"
    by (simp_all add: candidates_def profile_lists_def listed_def no_members_def)
  obtain outcome issued' where run: "directions_try stub_config ?net (asc ''127.0,37.5'')
      (asc ''129.0,35.1'') (asc ''trafast'') None [] = (outcome, issued')"
    by (cases "directions_try stub_config ?net (asc ''127.0,37.5'')
      (asc ''129.0,35.1'') (asc ''trafast'') None []")
  have issued': "issued' = [?req]"
    using run
    by (simp add: directions_try_def stub_coordinates and_then_succeed and_then_def
        makeNaverAPIRequest_def json_response_def ok_def succeed_def directions_request_def)
  from empty_result_not_found [where net = ?net and issued = "[]" and config = stub_config
      and address = "asc ''Nowhere''" and j = no_members and start = "asc ''127.0,37.5''"
      and goal = "asc ''129.0,35.1''" and option = "asc ''trafast''" and waypoints = None
      and ?issued1.0 = "[]" and outcome = outcome and issued' = issued' and j' = no_members
      and ?issued2.0 = "[]" and lng = "Finite 127" and lat = "Finite (75 / 2)"
      and j'' = no_members]
    answer empty run issued'
  show ?thesis
    by simp
qed

end
